theory Spec2Isabelle
  imports Main
begin

section \<open>SOFUN Tracker: the spreadsheet ingestion of the data processor\<close>

text \<open>
  A shallow embedding of \<^verbatim>\<open>SofunDataProcessor\<close> (the data processor source) and of
  the helpers it calls from the utilities source (\<^verbatim>\<open>js/advanced-audit.js\<close>).

  Strings are ASCII character lists: \<^verbatim>\<open>trim\<close>, \<^verbatim>\<open>toUpperCase\<close>, \<^verbatim>\<open>toLowerCase\<close> and the
  regular-expression classes \<^verbatim>\<open>\s\<close> and \<^verbatim>\<open>\d\<close> are modelled on their ASCII range.
  A JavaScript \<^verbatim>\<open>Date\<close> is its time value, an integer number of milliseconds since
  1970-01-01 UTC; an invalid date never leaves the functions below, they return
  \<^verbatim>\<open>null\<close> (here \<open>None\<close>) instead.
\<close>

subsection \<open>String primitives\<close>

definition isSpace :: "char \<Rightarrow> bool" where
  "isSpace c = (c \<in> set [CHR '' '', CHR 0x09, CHR 0x0A, CHR 0x0B, CHR 0x0C, CHR 0x0D])"

definition isDigit :: "char \<Rightarrow> bool" where
  "isDigit c = (c \<in> set ''0123456789'')"

definition trim :: "string \<Rightarrow> string" where
  "trim s = rev (dropWhile isSpace (rev (dropWhile isSpace s)))"

definition upperChar :: "char \<Rightarrow> char" where
  "upperChar c =
     (case map_of (zip ''abcdefghijklmnopqrstuvwxyz'' ''ABCDEFGHIJKLMNOPQRSTUVWXYZ'') c of
        Some u \<Rightarrow> u | None \<Rightarrow> c)"

definition lowerChar :: "char \<Rightarrow> char" where
  "lowerChar c =
     (case map_of (zip ''ABCDEFGHIJKLMNOPQRSTUVWXYZ'' ''abcdefghijklmnopqrstuvwxyz'') c of
        Some l \<Rightarrow> l | None \<Rightarrow> c)"

definition toUpperCase :: "string \<Rightarrow> string" where
  "toUpperCase s = map upperChar s"

definition toLowerCase :: "string \<Rightarrow> string" where
  "toLowerCase s = map lowerChar s"

definition startsWith :: "string \<Rightarrow> string \<Rightarrow> bool" where
  "startsWith s p = (take (length p) s = p)"

text \<open>\<^verbatim>\<open>hay.includes(needle)\<close>: the needle occurs as a contiguous substring.\<close>

fun strIncludes :: "string \<Rightarrow> string \<Rightarrow> bool" where
  "strIncludes [] needle = (needle = [])"
| "strIncludes (h # hay) needle = (startsWith (h # hay) needle \<or> strIncludes hay needle)"

text \<open>\<^verbatim>\<open>s.replace(/\s+/g, '')\<close>: every white-space character is removed.\<close>

definition stripSpaces :: "string \<Rightarrow> string" where
  "stripSpaces s = filter (\<lambda>c. \<not> isSpace c) s"

text \<open>The pieces of a string between the occurrences of a separator character.\<close>

fun splitOn :: "char \<Rightarrow> string \<Rightarrow> string list" where
  "splitOn sep [] = [[]]"
| "splitOn sep (c # cs) =
     (if c = sep then [] # splitOn sep cs
      else (case splitOn sep cs of [] \<Rightarrow> [[c]] | p # ps \<Rightarrow> (c # p) # ps))"

definition digitVal :: "char \<Rightarrow> int" where
  "digitVal c =
     (case map_of (zip ''0123456789'' [0, 1, 2, 3, 4, 5, 6, 7, 8, 9]) c of
        Some v \<Rightarrow> v | None \<Rightarrow> 0)"

text \<open>\<^verbatim>\<open>parseInt(s, 10)\<close> on a string of decimal digits.\<close>

definition parseDigits :: "string \<Rightarrow> int" where
  "parseDigits s = foldl (\<lambda>acc c. 10 * acc + digitVal c) 0 s"

definition allDigits :: "string \<Rightarrow> bool" where
  "allDigits s = list_all isDigit s"

text \<open>\<^verbatim>\<open>s.padStart(2, '0')\<close>.\<close>

definition padStart2 :: "string \<Rightarrow> string" where
  "padStart2 s = replicate (2 - length s) CHR ''0'' @ s"

subsection \<open>Calendar dates and the platform's date parser\<close>

definition isLeapYear :: "int \<Rightarrow> bool" where
  "isLeapYear y = (y mod 4 = 0 \<and> (y mod 100 \<noteq> 0 \<or> y mod 400 = 0))"

definition daysInMonth :: "int \<Rightarrow> int \<Rightarrow> int" where
  "daysInMonth y m =
     (if m = 2 then (if isLeapYear y then 29 else 28)
      else if m = 4 \<or> m = 6 \<or> m = 9 \<or> m = 11 then 30 else 31)"

text \<open>Days from 1970-01-01 to the given day of the proleptic Gregorian calendar.\<close>

definition daysFromCivil :: "int \<Rightarrow> int \<Rightarrow> int \<Rightarrow> int" where
  "daysFromCivil y m d =
     (let y' = (if m \<le> 2 then y - 1 else y);
          era = y' div 400;
          yoe = y' - era * 400;
          doy = (153 * (if m > 2 then m - 3 else m + 9) + 2) div 5 + d - 1;
          doe = yoe * 365 + yoe div 4 - yoe div 100 + doy
      in era * 146097 + doe - 719468)"

definition msPerDay :: int where
  "msPerDay = 86400000"

text \<open>The time value of midnight UTC of a calendar day (\<^verbatim>\<open>Date.UTC(y, m - 1, d)\<close>).\<close>

definition utcDate :: "int \<Rightarrow> int \<Rightarrow> int \<Rightarrow> int" where
  "utcDate y m d = daysFromCivil y m d * msPerDay"

text \<open>
  \<^verbatim>\<open>new Date(str)\<close>. ECMAScript fixes the result for the date-only form
  \<^verbatim>\<open>YYYY-MM-DD\<close> naming a day that exists: midnight UTC of that day. Every other
  string is left to the engine; its parser is the parameter \<open>legacy\<close>, which returns
  \<open>None\<close> where the engine yields an invalid date.
\<close>

definition isoDateOnly :: "string \<Rightarrow> int option" where
  "isoDateOnly s =
     (case splitOn CHR ''-'' s of
        [y, m, d] \<Rightarrow>
          if length y = 4 \<and> length m = 2 \<and> length d = 2
             \<and> allDigits y \<and> allDigits m \<and> allDigits d
             \<and> 1 \<le> parseDigits m \<and> parseDigits m \<le> 12
             \<and> 1 \<le> parseDigits d \<and> parseDigits d \<le> daysInMonth (parseDigits y) (parseDigits m)
          then Some (utcDate (parseDigits y) (parseDigits m) (parseDigits d))
          else None
      | _ \<Rightarrow> None)"

definition newDate :: "(string \<Rightarrow> int option) \<Rightarrow> string \<Rightarrow> int option" where
  "newDate legacy s = (case isoDateOnly s of Some t \<Rightarrow> Some t | None \<Rightarrow> legacy s)"

subsection \<open>Cell values\<close>

text \<open>
  A cell of a decoded sheet row: a hole or \<^verbatim>\<open>null\<close>/\<^verbatim>\<open>undefined\<close>, a string, an integer
  number, a boolean, or any other truthy value that is not a string (a \<^verbatim>\<open>Date\<close> object
  under \<^verbatim>\<open>cellDates\<close>, a fractional number), which carries the text its
  \<^verbatim>\<open>toString()\<close> gives.
\<close>

datatype cell = CNull | CStr string | CNum int | CBool bool | CObj string

datatype jsType = TUndefined | TString | TNumber | TBoolean | TObject

fun typeOf :: "cell \<Rightarrow> jsType" where
  "typeOf CNull = TUndefined"
| "typeOf (CStr s) = TString"
| "typeOf (CNum n) = TNumber"
| "typeOf (CBool b) = TBoolean"
| "typeOf (CObj s) = TObject"

fun truthy :: "cell \<Rightarrow> bool" where
  "truthy CNull = False"
| "truthy (CStr s) = (s \<noteq> [])"
| "truthy (CNum n) = (n \<noteq> 0)"
| "truthy (CBool b) = b"
| "truthy (CObj s) = True"

fun showNat :: "nat \<Rightarrow> string" where
  "showNat n =
     (if n < 10 then [''0123456789'' ! n]
      else showNat (n div 10) @ [''0123456789'' ! (n mod 10)])"

declare showNat.simps [simp del]

definition showInt :: "int \<Rightarrow> string" where
  "showInt i = (if i < 0 then CHR ''-'' # showNat (nat (- i)) else showNat (nat i))"

text \<open>\<^verbatim>\<open>cell.toString()\<close> on a cell that is neither \<^verbatim>\<open>null\<close> nor \<^verbatim>\<open>undefined\<close>.\<close>

fun cellToString :: "cell \<Rightarrow> string" where
  "cellToString CNull = []"
| "cellToString (CStr s) = s"
| "cellToString (CNum n) = showInt n"
| "cellToString (CBool b) = (if b then ''true'' else ''false'')"
| "cellToString (CObj s) = s"

subsection \<open>parseDate\<close>

text \<open>
  The branch for numbers inside \<^verbatim>\<open>parseDate\<close>: a six-digit number is turned into its
  string and falls through to the string patterns, any other number is read as a
  spreadsheet serial counted in days from 1899-12-30 UTC.
\<close>

definition excelSerial :: "int \<Rightarrow> int" where
  "excelSerial n = utcDate 1899 12 30 + n * msPerDay"

text \<open>A time value is valid (not \<^verbatim>\<open>NaN\<close>) within 8.64e15 milliseconds of the epoch.\<close>

definition validTime :: "int \<Rightarrow> bool" where
  "validTime t = (- 8640000000000000 \<le> t \<and> t \<le> 8640000000000000)"

definition numberBranch :: "cell \<Rightarrow> int option" where
  "numberBranch dateStr =
     (case dateStr of
        CNum n \<Rightarrow>
          if 100000 \<le> n \<and> n \<le> 999999 then None
          else if validTime (excelSerial n) then Some (excelSerial n) else None
      | _ \<Rightarrow> None)"

text \<open>\<^verbatim>\<open>/^(\d{1,2})SEP(\d{1,2})SEP(\d{2,4})$/\<close> followed by the date it builds.\<close>

definition dayMonthYear :: "(string \<Rightarrow> int option) \<Rightarrow> char \<Rightarrow> string \<Rightarrow> int option" where
  "dayMonthYear legacy sep cleanDate =
     (case splitOn sep cleanDate of
        [day, month, year] \<Rightarrow>
          if allDigits day \<and> allDigits month \<and> allDigits year
             \<and> 1 \<le> length day \<and> length day \<le> 2
             \<and> 1 \<le> length month \<and> length month \<le> 2
             \<and> 2 \<le> length year \<and> length year \<le> 4
          then newDate legacy
                 ((if length year = 2 then ''20'' @ year else year)
                  @ ''-'' @ padStart2 month @ ''-'' @ padStart2 day)
          else None
      | _ \<Rightarrow> None)"

text \<open>\<^verbatim>\<open>/^(\d{4})-(\d{1,2})-(\d{1,2})$/\<close>.\<close>

definition isoMatch :: "(string \<Rightarrow> int option) \<Rightarrow> string \<Rightarrow> int option" where
  "isoMatch legacy cleanDate =
     (case splitOn CHR ''-'' cleanDate of
        [year, month, day] \<Rightarrow>
          if allDigits year \<and> allDigits month \<and> allDigits day
             \<and> length year = 4
             \<and> 1 \<le> length month \<and> length month \<le> 2
             \<and> 1 \<le> length day \<and> length day \<le> 2
          then newDate legacy (year @ ''-'' @ padStart2 month @ ''-'' @ padStart2 day)
          else None
      | _ \<Rightarrow> None)"

text \<open>\<^verbatim>\<open>/^(\d{2})(\d{2})(\d{2})$/\<close>: years 00-49 are 20xx, 50-99 are 19xx.\<close>

definition compactMatch :: "(string \<Rightarrow> int option) \<Rightarrow> string \<Rightarrow> int option" where
  "compactMatch legacy cleanDate =
     (if length cleanDate = 6 \<and> allDigits cleanDate
      then (let day = take 2 cleanDate;
                month = take 2 (drop 2 cleanDate);
                year = drop 4 cleanDate;
                fullYear = (if parseDigits year < 50 then ''20'' @ year else ''19'' @ year)
            in newDate legacy (fullYear @ ''-'' @ month @ ''-'' @ day))
      else None)"

definition orElse :: "'a option \<Rightarrow> 'a option \<Rightarrow> 'a option" where
  "orElse a b = (case a of Some x \<Rightarrow> Some x | None \<Rightarrow> b)"

definition parseDate :: "(string \<Rightarrow> int option) \<Rightarrow> cell \<Rightarrow> int option" where
  "parseDate legacy dateStr =
     (if \<not> truthy dateStr \<or> typeOf dateStr \<noteq> TString then None
      else let cleanDate = trim (cellToString dateStr) in
        if cleanDate = [] then None
        else
          orElse (numberBranch dateStr)
         (orElse (dayMonthYear legacy CHR ''-'' cleanDate)
         (orElse (dayMonthYear legacy CHR ''/'' cleanDate)
         (orElse (isoMatch legacy cleanDate)
         (orElse (compactMatch legacy cleanDate)
                 (newDate legacy cleanDate))))))"

subsection \<open>validatePlatoon\<close>

definition validPlatoons :: "string list" where
  "validPlatoons =
     [''Platoon 1'', ''Platoon 2'', ''Platoon 3'', ''Platoon 4'',
      ''COY HQ'', ''Support Platoon'', ''Admin'', ''Medical'',
      ''Signals'', ''Transport'', ''Unassigned'']"

text \<open>The closing loop of \<^verbatim>\<open>validatePlatoon\<close>: the first entry that contains the label or
  is contained in it.\<close>

definition partialMatch :: "string \<Rightarrow> string option" where
  "partialMatch lowerPlatoon =
     find (\<lambda>valid. strIncludes (toLowerCase valid) lowerPlatoon
                  \<or> strIncludes lowerPlatoon (toLowerCase valid)) validPlatoons"

text \<open>The argument is \<open>None\<close> for \<^verbatim>\<open>null\<close>/\<^verbatim>\<open>undefined\<close>.\<close>

definition validatePlatoon :: "string option \<Rightarrow> string" where
  "validatePlatoon platoon =
     (case platoon of
        None \<Rightarrow> ''Unassigned''
      | Some p \<Rightarrow>
          if p = [] \<or> trim p = [] then ''Unassigned''
          else let normalizedPlatoon = trim p; lowerPlatoon = toLowerCase normalizedPlatoon in
            if normalizedPlatoon \<in> set validPlatoons then normalizedPlatoon
            else if strIncludes lowerPlatoon ''coy'' \<or> strIncludes lowerPlatoon ''hq''
                    \<or> strIncludes lowerPlatoon ''headquarters'' then ''COY HQ''
            else if strIncludes lowerPlatoon ''platoon'' \<or> strIncludes lowerPlatoon ''plt'' then
              (if strIncludes lowerPlatoon ''1'' \<or> strIncludes lowerPlatoon ''one'' then ''Platoon 1''
               else if strIncludes lowerPlatoon ''2'' \<or> strIncludes lowerPlatoon ''two'' then ''Platoon 2''
               else if strIncludes lowerPlatoon ''3'' \<or> strIncludes lowerPlatoon ''three'' then ''Platoon 3''
               else if strIncludes lowerPlatoon ''4'' \<or> strIncludes lowerPlatoon ''four'' then ''Platoon 4''
               else ''Platoon 1'')
            else if strIncludes lowerPlatoon ''support'' then ''Support Platoon''
            else if strIncludes lowerPlatoon ''admin'' then ''Admin''
            else if strIncludes lowerPlatoon ''medical'' \<or> strIncludes lowerPlatoon ''med'' then ''Medical''
            else if strIncludes lowerPlatoon ''signal'' then ''Signals''
            else if strIncludes lowerPlatoon ''transport'' \<or> strIncludes lowerPlatoon ''trans''
              then ''Transport''
            else (case partialMatch lowerPlatoon of Some valid \<Rightarrow> valid | None \<Rightarrow> ''Unassigned''))"

subsection \<open>Utilities of the ingestion\<close>

definition VALID_PLATOONS :: "string list" where
  "VALID_PLATOONS =
     [''COY HQ'', ''Platoon 1'', ''Platoon 2'', ''Platoon 3'', ''Platoon 4'',
      ''Support Platoon'', ''Admin'', ''Medical'', ''Signals'', ''Transport'']"

definition MEDICAL_STATUS_OPTIONS :: "string list" where
  "MEDICAL_STATUS_OPTIONS = [''Fit'', ''Light Duty'', ''Excused IPPT'', ''Medical Board'']"

definition isValidPlatoon :: "string \<Rightarrow> bool" where
  "isValidPlatoon platoonName = (platoonName \<in> set VALID_PLATOONS)"

text \<open>\<^verbatim>\<open>sanitizePersonnelName\<close>; the argument is \<open>None\<close> for \<^verbatim>\<open>undefined\<close>.\<close>

definition sanitizePersonnelName :: "string option \<Rightarrow> string" where
  "sanitizePersonnelName nm =
     (case nm of
        None \<Rightarrow> []
      | Some n \<Rightarrow>
          if n = [] then []
          else toUpperCase (take 100 (filter (\<lambda>c. c \<notin> set [CHR ''<'', CHR ''>'', CHR 0x22, CHR 0x27])
                 (trim n))))"

text \<open>\<^verbatim>\<open>row[i]\<close>: a read past the end of the row gives \<^verbatim>\<open>undefined\<close>.\<close>

definition cellAt :: "cell list \<Rightarrow> nat \<Rightarrow> cell" where
  "cellAt row i = (if i < length row then row ! i else CNull)"

text \<open>\<^verbatim>\<open>row[i]?.toString().trim()\<close>: \<open>None\<close> is \<^verbatim>\<open>undefined\<close>.\<close>

definition cellText :: "cell list \<Rightarrow> nat \<Rightarrow> string option" where
  "cellText row i =
     (case cellAt row i of CNull \<Rightarrow> None | c \<Rightarrow> Some (trim (cellToString c)))"

text \<open>Truthiness of a value that is a string or \<^verbatim>\<open>undefined\<close>.\<close>

definition nonEmpty :: "string option \<Rightarrow> bool" where
  "nonEmpty v = (case v of None \<Rightarrow> False | Some s \<Rightarrow> s \<noteq> [])"

text \<open>\<^verbatim>\<open>v || ''\<close>.\<close>

definition orEmpty :: "string option \<Rightarrow> string" where
  "orEmpty v = (case v of None \<Rightarrow> [] | Some s \<Rightarrow> s)"

text \<open>A JavaScript \<^verbatim>\<open>Map\<close> keyed by strings, in insertion order: \<^verbatim>\<open>set\<close> replaces the
  value of a key in place and appends a new key; \<^verbatim>\<open>get\<close>/\<^verbatim>\<open>has\<close> are \<open>map_of\<close>.\<close>

fun mapSet :: "string \<Rightarrow> 'v \<Rightarrow> (string \<times> 'v) list \<Rightarrow> (string \<times> 'v) list" where
  "mapSet k v [] = [(k, v)]"
| "mapSet k v ((k', v') # m) = (if k' = k then (k, v) # m else (k', v') # mapSet k v m)"

subsection \<open>Records\<close>

datatype category = NSF | Regular

text \<open>A date-valued property: \<^verbatim>\<open>null\<close> or absent, a \<^verbatim>\<open>Date\<close> object, or a string.\<close>

datatype dateVal = DNull | DDate int | DString string

record y1 =
  y1_ippt :: string
  y1_ipptDate :: dateVal
  y1_voc :: string
  y1_vocDate :: dateVal
  y1_atp :: string
  y1_atpDate :: dateVal

record y2 =
  y2_ippt :: string
  y2_ipptDate :: dateVal
  y2_voc :: string
  y2_vocDate :: dateVal
  y2_range :: string
  y2_rangeDate :: dateVal

record workYear =
  wy_ippt :: string
  wy_ipptDate :: dateVal
  wy_voc :: string
  wy_vocDate :: dateVal
  wy_atp :: string
  wy_atpDate :: dateVal
  wy_cs :: string
  wy_csDate :: dateVal

text \<open>The assessment properties a record object carries: either \<^verbatim>\<open>y1\<close> and \<^verbatim>\<open>y2\<close>, or
  \<^verbatim>\<open>workYear\<close>. They are written once, when the record is created.\<close>

datatype assessment = Phases y1 y2 | WorkYear workYear

record person =
  name :: string
  category :: category
  platoon :: string
  unit :: string
  rank :: string
  pes :: "string option"
  lastUpdated :: int
  ordDate :: dateVal
  isORD :: bool
  medicalStatus :: string
  remedialTraining :: "string list"
  assessment :: assessment
  y1WindowEndDate :: dateVal
  y2WindowEndDate :: dateVal

text \<open>
  The messages pushed to \<^verbatim>\<open>warnings\<close>, with the values their templates interpolate:
  \<^item> \<open>AmbiguousHeader n raw\<close>: \<^verbatim>\<open>Row n: Ambiguous or unrecognized platoon header: "raw". Skipping header.\<close>
  \<^item> \<open>MissingNameOrRank n\<close>: \<^verbatim>\<open>Row n: Missing name or rank, skipping\<close>
  \<^item> \<open>InvalidPlatoon name platoon d\<close>: \<^verbatim>\<open>name: Invalid platoon "platoon", assigned to d\<close>
  \<^item> \<open>InvalidOrdDate name\<close>: \<^verbatim>\<open>name: Invalid ORD date, using generated date\<close>
\<close>

datatype warning =
    AmbiguousHeader nat string
  | MissingNameOrRank nat
  | InvalidPlatoon string string string
  | InvalidOrdDate string

text \<open>
  What the \<^verbatim>\<open>catch\<close> of \<^verbatim>\<open>processExcelFile\<close> can receive from the code modelled here:
  the error thrown for a missing sheet, and the \<^verbatim>\<open>TypeError\<close> of a write to a property
  of \<^verbatim>\<open>undefined\<close> (\<open>TypeError b\<close>: \<^verbatim>\<open>person.b\<close> was \<^verbatim>\<open>undefined\<close>).
\<close>

datatype error = MissingSheet | TypeError string

text \<open>
  What the ingestion reads from its host besides the workbook: the engine's parser for
  date strings, the clock (\<^verbatim>\<open>new Date()\<close> while row \<open>i\<close> is processed, and during the
  post-pass), \<^verbatim>\<open>new Date(y, m, d)\<close> in the host's time zone, and the result of
  \<^verbatim>\<open>generateRandomOrdDate()\<close> (it reads the clock and \<^verbatim>\<open>Math.random\<close>) when it is called
  for the \<open>k\<close>-th record of the post-pass.
\<close>

record env =
  legacyParse :: "string \<Rightarrow> int option"
  rowTime :: "nat \<Rightarrow> int"
  now :: int
  localDate :: "int \<Rightarrow> int \<Rightarrow> int \<Rightarrow> int"
  generateRandomOrdDate :: "nat \<Rightarrow> string"

subsection \<open>validateDateInput\<close>

text \<open>\<^verbatim>\<open>/^\d{1,2}-\d{1,2}-\d{2}$/\<close> and the local date built from its three numbers.\<close>

definition shortDate :: "env \<Rightarrow> string \<Rightarrow> int option" where
  "shortDate e s =
     (case splitOn CHR ''-'' s of
        [day, month, year] \<Rightarrow>
          if allDigits day \<and> allDigits month \<and> allDigits year
             \<and> 1 \<le> length day \<and> length day \<le> 2
             \<and> 1 \<le> length month \<and> length month \<le> 2
             \<and> length year = 2
          then Some (localDate e
                 (if parseDigits year < 30 then 2000 + parseDigits year else 1900 + parseDigits year)
                 (parseDigits month - 1) (parseDigits day))
          else None
      | _ \<Rightarrow> None)"

definition minDate :: int where
  "minDate = utcDate 2020 1 1"

definition validateDateInput :: "env \<Rightarrow> dateVal \<Rightarrow> bool \<Rightarrow> int option" where
  "validateDateInput e dateString allowFuture =
     (let date =
        (case dateString of
           DNull \<Rightarrow> None
         | DDate t \<Rightarrow> Some t
         | DString s \<Rightarrow>
             if s = [] then None
             else (case shortDate e s of Some t \<Rightarrow> Some t | None \<Rightarrow> newDate (legacyParse e) s))
      in case date of
           None \<Rightarrow> None
         | Some t \<Rightarrow>
             if \<not> allowFuture \<and> t > now e then None
             else if t < minDate then None
             else Some t)"

subsection \<open>The secondary sheet: dates keyed by name\<close>

text \<open>The test both sheets use to find the first data row: more than two cells, a rank
  and a name of more than two characters, neither being a column title.\<close>

definition looksLikeData :: "cell list \<Rightarrow> bool" where
  "looksLikeData row =
     (length row > 2 \<and>
      (case (cellText row 1, cellText row 2) of
         (Some rnk, Some nm) \<Rightarrow>
            rnk \<noteq> [] \<and> nm \<noteq> [] \<and> length rnk > 0 \<and> length nm > 2
            \<and> \<not> strIncludes (toUpperCase rnk) ''RANK''
            \<and> \<not> strIncludes (toUpperCase nm) ''NAME''
       | _ \<Rightarrow> False))"

definition findDataStartRow :: "cell list list \<Rightarrow> nat" where
  "findDataStartRow rawData =
     (case find (\<lambda>i. looksLikeData (rawData ! i)) [0 ..< min 10 (length rawData)] of
        Some i \<Rightarrow> i | None \<Rightarrow> 4)"

record vocMaps =
  ordDateMap :: "(string \<times> int option) list"
  y1WindowMap :: "(string \<times> int option) list"
  y2WindowMap :: "(string \<times> int option) list"

definition vocRow :: "(string \<Rightarrow> int option) \<Rightarrow> vocMaps \<Rightarrow> cell list \<Rightarrow> vocMaps" where
  "vocRow legacy maps row =
     (let nm = cellText row 2;
          y1WindowRaw = cellAt row 5;
          ordRaw = cellAt row 6;
          y2WindowRaw = cellAt row 6
      in if nonEmpty nm then
           (let nameKey = sanitizePersonnelName nm;
                m1 = (if truthy y1WindowRaw
                      then maps\<lparr>y1WindowMap := mapSet nameKey (parseDate legacy y1WindowRaw) (y1WindowMap maps)\<rparr>
                      else maps);
                m2 = (if truthy ordRaw
                      then m1\<lparr>ordDateMap := mapSet nameKey (parseDate legacy ordRaw) (ordDateMap m1)\<rparr>
                      else m1)
            in if truthy y2WindowRaw
               then m2\<lparr>y2WindowMap := mapSet nameKey (parseDate legacy y2WindowRaw) (y2WindowMap m2)\<rparr>
               else m2)
         else maps)"

definition emptyVocMaps :: vocMaps where
  "emptyVocMaps = \<lparr>ordDateMap = [], y1WindowMap = [], y2WindowMap = []\<rparr>"

definition vocScan :: "(string \<Rightarrow> int option) \<Rightarrow> cell list list \<Rightarrow> vocMaps" where
  "vocScan legacy vocData =
     foldl (vocRow legacy) emptyVocMaps (drop (findDataStartRow vocData) vocData)"

subsection \<open>One row of the primary sheet\<close>

record pstate =
  personnelMap :: "(string \<times> person) list"
  warningsSoFar :: "warning list"
  currentPlatoon :: string

definition isBlankRow :: "cell list \<Rightarrow> bool" where
  "isBlankRow row =
     (row = [] \<or> list_all (\<lambda>cell. \<not> truthy cell \<or> trim (cellToString cell) = []) row)"

text \<open>\<^verbatim>\<open>/^PLATOON\s*(\d)$/i\<close>: the captured digit.\<close>

definition platoonMatch :: "string \<Rightarrow> char option" where
  "platoonMatch s =
     (let rest = drop 7 s in
      if toUpperCase (take 7 s) = ''PLATOON'' \<and> rest \<noteq> []
         \<and> isDigit (last rest) \<and> list_all isSpace (butlast rest)
      then Some (last rest) else None)"

definition supportUnits :: "string list" where
  "supportUnits = [''COY HQ'', ''Support Platoon'', ''Admin'', ''Medical'', ''Signals'', ''Transport'']"

text \<open>The value of \<^verbatim>\<open>platoonHeader\<close> after the strict detection; empty when the first cell
  is no section header.\<close>

definition strictHeader :: "string option \<Rightarrow> string" where
  "strictHeader platoonHeaderRaw =
     (case platoonHeaderRaw of
        None \<Rightarrow> []
      | Some raw \<Rightarrow>
          if raw = [] then []
          else (case platoonMatch raw of
                  Some d \<Rightarrow> ''Platoon '' @ [d]
                | None \<Rightarrow>
                    (case find (\<lambda>u. toUpperCase (stripSpaces raw) = toUpperCase (stripSpaces u))
                               supportUnits of
                       Some u \<Rightarrow> u
                     | None \<Rightarrow> [])))"

definition hasUnitKeyword :: "string option \<Rightarrow> bool" where
  "hasUnitKeyword platoonHeaderRaw =
     (case platoonHeaderRaw of
        None \<Rightarrow> False
      | Some raw \<Rightarrow>
          raw \<noteq> [] \<and> length raw > 0
          \<and> (strIncludes (toUpperCase raw) ''PLATOON'' \<or> strIncludes (toUpperCase raw) ''COY''
             \<or> strIncludes (toUpperCase raw) ''HQ''))"

definition emptyY1 :: y1 where
  "emptyY1 = \<lparr>y1_ippt = [], y1_ipptDate = DNull, y1_voc = [], y1_vocDate = DNull,
              y1_atp = [], y1_atpDate = DNull\<rparr>"

definition emptyY2 :: y2 where
  "emptyY2 = \<lparr>y2_ippt = [], y2_ipptDate = DNull, y2_voc = [], y2_vocDate = DNull,
              y2_range = [], y2_rangeDate = DNull\<rparr>"

definition emptyWorkYear :: workYear where
  "emptyWorkYear = \<lparr>wy_ippt = [], wy_ipptDate = DNull, wy_voc = [], wy_vocDate = DNull,
                    wy_atp = [], wy_atpDate = DNull, wy_cs = [], wy_csDate = DNull\<rparr>"

text \<open>\<^verbatim>\<open>baseRecord\<close>, with the assessment properties of the category it is created for.\<close>

definition baseRecord :: "string \<Rightarrow> category \<Rightarrow> string \<Rightarrow> string \<Rightarrow> string option \<Rightarrow> int \<Rightarrow> person" where
  "baseRecord key personnelCategory curPlatoon rnk ps t =
     \<lparr>name = key,
      category = personnelCategory,
      platoon = (if curPlatoon \<noteq> [] then curPlatoon else ''Unassigned''),
      unit = (if curPlatoon \<noteq> [] then curPlatoon else ''Unassigned''),
      rank = rnk,
      pes = ps,
      lastUpdated = t,
      ordDate = DNull,
      isORD = False,
      medicalStatus = ''Fit'',
      remedialTraining = [],
      assessment = (if personnelCategory = Regular then WorkYear emptyWorkYear
                    else Phases emptyY1 emptyY2),
      y1WindowEndDate = DNull,
      y2WindowEndDate = DNull\<rparr>"

text \<open>The guard of every result assignment: the cell has text, and the text is neither
  \<^verbatim>\<open>MISSING\<close> nor \<^verbatim>\<open>NA\<close> in any letter case.\<close>

definition usable :: "string option \<Rightarrow> bool" where
  "usable v =
     (case v of
        None \<Rightarrow> False
      | Some s \<Rightarrow> s \<noteq> [] \<and> toUpperCase s \<noteq> ''MISSING'' \<and> toUpperCase s \<noteq> ''NA'')"

text \<open>\<^verbatim>\<open>if (guard) slot = v\<close>.\<close>

definition assign :: "string option \<Rightarrow> string \<Rightarrow> string" where
  "assign v slot = (if usable v then orEmpty v else slot)"

definition toDateVal :: "int option \<Rightarrow> dateVal" where
  "toDateVal d = (case d of None \<Rightarrow> DNull | Some t \<Rightarrow> DDate t)"

definition dateTruthy :: "dateVal \<Rightarrow> bool" where
  "dateTruthy d = (case d of DNull \<Rightarrow> False | DDate t \<Rightarrow> True | DString s \<Rightarrow> s \<noteq> [])"

text \<open>The updates of platoon, rank, PES and category that every data row makes.\<close>

definition updateAdmin :: "string \<Rightarrow> string \<Rightarrow> string option \<Rightarrow> string option \<Rightarrow> category \<Rightarrow> person \<Rightarrow> person" where
  "updateAdmin curPlatoon rnk ps service personnelCategory p =
     (let p1 = (if curPlatoon \<noteq> [] \<and> platoon p \<noteq> curPlatoon then p\<lparr>platoon := curPlatoon\<rparr> else p);
          p2 = (if rnk \<noteq> [] \<and> rank p1 \<noteq> rnk then p1\<lparr>rank := rnk\<rparr> else p1);
          p3 = (if nonEmpty ps \<and> pes p2 \<noteq> ps then p2\<lparr>pes := ps\<rparr> else p2)
      in if nonEmpty service \<and> category p3 \<noteq> personnelCategory
         then p3\<lparr>category := personnelCategory\<rparr> else p3)"

text \<open>The dates of the secondary sheet, copied to a record whose category is NSF.\<close>

definition applyVocDates :: "vocMaps \<Rightarrow> string \<Rightarrow> person \<Rightarrow> person" where
  "applyVocDates maps key p =
     (if category p = NSF then
        (let p1 = (case map_of (ordDateMap maps) key of
                     Some d \<Rightarrow> p\<lparr>ordDate := toDateVal d\<rparr> | None \<Rightarrow> p);
             p2 = (case map_of (y1WindowMap maps) key of
                     Some d \<Rightarrow> p1\<lparr>y1WindowEndDate := toDateVal d\<rparr> | None \<Rightarrow> p1)
         in case map_of (y2WindowMap maps) key of
              Some d \<Rightarrow> p2\<lparr>y2WindowEndDate := toDateVal d\<rparr>
            | None \<Rightarrow>
                if \<not> dateTruthy (y2WindowEndDate p2) \<and> dateTruthy (ordDate p2)
                then p2\<lparr>y2WindowEndDate := ordDate p2\<rparr> else p2)
      else p)"

text \<open>
  The result assignments. A Regular record is written through \<^verbatim>\<open>person.workYear\<close>, any
  other through \<^verbatim>\<open>person.y1\<close> and \<^verbatim>\<open>person.y2\<close>; where the record does not carry that
  property, the first assignment whose guard holds throws a \<^verbatim>\<open>TypeError\<close>.
\<close>

definition assignResults :: "cell list \<Rightarrow> person \<Rightarrow> error + person" where
  "assignResults row p =
     (let y1Ippt = cellText row 5; y1Voc = cellText row 6; y1Atp = cellText row 7;
          y2Ippt = cellText row 8; y2Voc = cellText row 9; y2Range = cellText row 10;
          workYearIppt = cellText row 11; workYearVoc = cellText row 12;
          workYearAtp = cellText row 13; workYearCs = cellText row 14
      in if category p = Regular then
           (case assessment p of
              WorkYear w \<Rightarrow>
                Inr (p\<lparr>assessment := WorkYear
                       (w\<lparr>wy_ippt := assign workYearIppt (wy_ippt w),
                          wy_voc := assign workYearVoc (wy_voc w),
                          wy_atp := assign workYearAtp (wy_atp w),
                          wy_cs := assign workYearCs (wy_cs w)\<rparr>)\<rparr>)
            | Phases a b \<Rightarrow>
                if usable workYearIppt \<or> usable workYearVoc \<or> usable workYearAtp \<or> usable workYearCs
                then Inl (TypeError ''workYear'') else Inr p)
         else
           (case assessment p of
              Phases a b \<Rightarrow>
                Inr (p\<lparr>assessment := Phases
                       (a\<lparr>y1_ippt := assign y1Ippt (y1_ippt a),
                          y1_voc := assign y1Voc (y1_voc a),
                          y1_atp := assign y1Atp (y1_atp a)\<rparr>)
                       (b\<lparr>y2_ippt := assign y2Ippt (y2_ippt b),
                          y2_voc := assign y2Voc (y2_voc b),
                          y2_range := assign y2Range (y2_range b)\<rparr>)\<rparr>)
            | WorkYear w \<Rightarrow>
                if usable y1Ippt \<or> usable y1Voc \<or> usable y1Atp then Inl (TypeError ''y1'')
                else if usable y2Ippt \<or> usable y2Voc \<or> usable y2Range then Inl (TypeError ''y2'')
                else Inr p))"

text \<open>\<^verbatim>\<open>key\<close> and \<^verbatim>\<open>personnelCategory\<close> of a personnel row: the sanitized name, and Regular
  exactly when the service cell contains \<^verbatim>\<open>REG\<close> in any letter case.\<close>

definition rowKey :: "cell list \<Rightarrow> string" where
  "rowKey row = sanitizePersonnelName (cellText row 2)"

definition rowCategory :: "cell list \<Rightarrow> category" where
  "rowCategory row =
     (let serviceUpper = toUpperCase (orEmpty (cellText row 4))
      in if strIncludes serviceUpper ''REG'' then Regular else NSF)"

text \<open>A personnel row: the record of its name is created when absent, then updated.\<close>

definition processDataRow :: "(nat \<Rightarrow> int) \<Rightarrow> vocMaps \<Rightarrow> nat \<Rightarrow> cell list \<Rightarrow> pstate \<Rightarrow> error + pstate" where
  "processDataRow clock maps i row st =
     (let rnk = orEmpty (cellText row 1);
          ps = cellText row 3;
          service = cellText row 4;
          key = rowKey row;
          personnelCategory = rowCategory row;
          person = (case map_of (personnelMap st) key of
                      Some p \<Rightarrow> p
                    | None \<Rightarrow> baseRecord key personnelCategory (currentPlatoon st) rnk ps (clock i));
          person1 = applyVocDates maps key
                      (updateAdmin (currentPlatoon st) rnk ps service personnelCategory person)
      in case assignResults row person1 of
           Inl e \<Rightarrow> Inl e
         | Inr person2 \<Rightarrow> Inr (st\<lparr>personnelMap := mapSet key person2 (personnelMap st)\<rparr>))"

text \<open>The body of the loop over the rows, for the row of index \<open>i\<close>.\<close>

definition processRow :: "(nat \<Rightarrow> int) \<Rightarrow> vocMaps \<Rightarrow> nat \<Rightarrow> cell list \<Rightarrow> pstate \<Rightarrow> error + pstate" where
  "processRow clock maps i row st =
     (if isBlankRow row then Inr st
      else let platoonHeaderRaw = cellText row 0;
               platoonHeader = strictHeader platoonHeaderRaw
        in if platoonHeader \<noteq> [] then Inr (st\<lparr>currentPlatoon := platoonHeader\<rparr>)
           else if hasUnitKeyword platoonHeaderRaw
             then Inr (st\<lparr>warningsSoFar :=
                        warningsSoFar st @ [AmbiguousHeader (i + 1) (orEmpty platoonHeaderRaw)]\<rparr>)
           else if \<not> nonEmpty (cellText row 1) \<or> \<not> nonEmpty (cellText row 2)
             then Inr (st\<lparr>warningsSoFar := warningsSoFar st @ [MissingNameOrRank (i + 1)]\<rparr>)
           else processDataRow clock maps i row st)"

fun processRows :: "(nat \<Rightarrow> int) \<Rightarrow> vocMaps \<Rightarrow> nat \<Rightarrow> cell list list \<Rightarrow> pstate \<Rightarrow> error + pstate" where
  "processRows clock maps i [] st = Inr st"
| "processRows clock maps i (row # rows) st =
     (case processRow clock maps i row st of
        Inl e \<Rightarrow> Inl e
      | Inr st' \<Rightarrow> processRows clock maps (Suc i) rows st')"

subsection \<open>The post-pass and the whole ingestion\<close>

definition defaultPlatoon :: "category \<Rightarrow> string" where
  "defaultPlatoon c = (if c = NSF then ''Platoon 1'' else ''COY HQ'')"

text \<open>\<^verbatim>\<open>validateAndCleanPersonnelRecord\<close>, called for the \<open>k\<close>-th record.\<close>

definition validateAndCleanPersonnelRecord :: "env \<Rightarrow> nat \<Rightarrow> person \<Rightarrow> warning list \<Rightarrow> person \<times> warning list" where
  "validateAndCleanPersonnelRecord e k p ws =
     (let (p1, ws1) =
            (if \<not> isValidPlatoon (platoon p)
             then (p\<lparr>platoon := defaultPlatoon (category p)\<rparr>,
                   ws @ [InvalidPlatoon (name p) (platoon p) (defaultPlatoon (category p))])
             else (p, ws));
          p2 = (if medicalStatus p1 \<notin> set MEDICAL_STATUS_OPTIONS
                then p1\<lparr>medicalStatus := ''Fit''\<rparr> else p1)
      in if dateTruthy (ordDate p2) \<and> validateDateInput e (ordDate p2) True = None
         then (p2\<lparr>ordDate := (if category p2 = NSF then DString (generateRandomOrdDate e k) else DNull)\<rparr>,
               ws1 @ [InvalidOrdDate (name p2)])
         else (p2, ws1))"

fun postPass :: "env \<Rightarrow> nat \<Rightarrow> person list \<Rightarrow> warning list \<Rightarrow> person list \<times> warning list" where
  "postPass e k [] ws = ([], ws)"
| "postPass e k (p # ps) ws =
     (let (p', ws') = validateAndCleanPersonnelRecord e k p ws;
          (ps', ws'') = postPass e (Suc k) ps ws'
      in (p' # ps', ws''))"

type_synonym workbook = "(string \<times> cell list list) list"

record result =
  success :: bool
  data :: "person list"
  recordCount :: nat
  errors :: "error list"
  warnings :: "warning list"

definition findSheet :: "string \<Rightarrow> workbook \<Rightarrow> cell list list option" where
  "findSheet wanted wb =
     map_option snd (find (\<lambda>(sheetName, rows). toLowerCase (trim sheetName) = wanted) wb)"

definition rejected :: "error \<Rightarrow> result" where
  "rejected e = \<lparr>success = False, data = [], recordCount = 0, errors = [e], warnings = []\<rparr>"

text \<open>
  \<^verbatim>\<open>processExcelFile\<close>, from the decoded workbook on: the sheets by name, each a list of
  rows as \<^verbatim>\<open>sheet_to_json(sheet, {header: 1})\<close> returns them. The file checks and the
  decoding before that point, the console output, the local counters and
  \<^verbatim>\<open>originalWorkbook\<close> of the result (the argument itself) are left out.

  \<open>scanSheets\<close> is the body of the \<^verbatim>\<open>try\<close> block up to the end of the row loop: \<open>Inl\<close>
  is what the \<^verbatim>\<open>catch\<close> receives.
\<close>

definition initialState :: pstate where
  "initialState = \<lparr>personnelMap = [], warningsSoFar = [], currentPlatoon = []\<rparr>"

definition scanSheets :: "env \<Rightarrow> workbook \<Rightarrow> error + pstate" where
  "scanSheets e wb =
     (case findSheet ''all in one view'' wb of
        None \<Rightarrow> Inl MissingSheet
      | Some rawData \<Rightarrow>
          (let maps = (case findSheet ''voc'' wb of
                         Some vocData \<Rightarrow> vocScan (legacyParse e) vocData
                       | None \<Rightarrow> emptyVocMaps);
               dataStartRow = findDataStartRow rawData
           in processRows (rowTime e) maps dataStartRow (drop dataStartRow rawData)
                initialState))"

definition processExcelFile :: "env \<Rightarrow> workbook \<Rightarrow> result" where
  "processExcelFile e wb =
     (case scanSheets e wb of
        Inl err \<Rightarrow> rejected err
      | Inr st \<Rightarrow>
          (let (personnel, ws) = postPass e 0 (map snd (personnelMap st)) (warningsSoFar st)
           in \<lparr>success = True, data = personnel, recordCount = length personnel,
               errors = [], warnings = ws\<rparr>))"

subsection \<open>Notions used to state the properties\<close>

text \<open>A row that the loop takes as a personnel row: not blank, neither a section header
  nor a label with a unit keyword in the first cell, and with a rank and a name.\<close>

definition isPersonnelRow :: "cell list \<Rightarrow> bool" where
  "isPersonnelRow row =
     (\<not> isBlankRow row \<and> strictHeader (cellText row 0) = []
      \<and> \<not> hasUnitKeyword (cellText row 0)
      \<and> nonEmpty (cellText row 1) \<and> nonEmpty (cellText row 2))"

text \<open>
  The strict section-header match in the spec's words
  (\<^verbatim>\<open>matchSectionHeader(rawLabel) -> unitName | null\<close>): the label is exactly a
  \<^verbatim>\<open>PLATOON <digit>\<close> pattern, in any letter case, and names that platoon, or it equals
  an entry of the support-unit list once white space and letter case are ignored.
\<close>

definition matchSectionHeaderSpec :: "string \<Rightarrow> string \<Rightarrow> bool" where
  "matchSectionHeaderSpec rawLabel unitName =
     ((\<exists>p ws d. rawLabel = p @ ws @ [d] \<and> toUpperCase p = ''PLATOON''
                 \<and> list_all isSpace ws \<and> isDigit d \<and> unitName = ''Platoon '' @ [d])
      \<or> (unitName \<in> set supportUnits
          \<and> toUpperCase (stripSpaces rawLabel) = toUpperCase (stripSpaces unitName)))"

text \<open>The test-result slots of a record.\<close>

definition slotValues :: "person \<Rightarrow> string list" where
  "slotValues p =
     (case assessment p of
        Phases a b \<Rightarrow> [y1_ippt a, y1_voc a, y1_atp a, y2_ippt b, y2_voc b, y2_range b]
      | WorkYear w \<Rightarrow> [wy_ippt w, wy_voc w, wy_atp w, wy_cs w])"

text \<open>The cells of a row that the result assignments read for a category, in the order
  of \<open>slotValues\<close> (columns F to K for the phases, L to O for the work year), and the slots
  of a new record of that category.\<close>

definition resultCells :: "category \<Rightarrow> cell list \<Rightarrow> string option list" where
  "resultCells c row =
     (case c of
        NSF \<Rightarrow> [cellText row 5, cellText row 6, cellText row 7,
                cellText row 8, cellText row 9, cellText row 10]
      | Regular \<Rightarrow> [cellText row 11, cellText row 12, cellText row 13, cellText row 14])"

definition emptySlots :: "category \<Rightarrow> string list" where
  "emptySlots c = (case c of NSF \<Rightarrow> [[], [], [], [], [], []] | Regular \<Rightarrow> [[], [], [], []])"

text \<open>The record carries the assessment properties of its category.\<close>

definition shapeMatches :: "person \<Rightarrow> bool" where
  "shapeMatches p =
     (case assessment p of Phases a b \<Rightarrow> category p = NSF | WorkYear w \<Rightarrow> category p = Regular)"

text \<open>The slots stored under a name, those of a new record when the name is absent.\<close>

definition storedSlots :: "pstate \<Rightarrow> string \<Rightarrow> category \<Rightarrow> string list" where
  "storedSlots st key c =
     (case map_of (personnelMap st) key of Some p \<Rightarrow> slotValues p | None \<Rightarrow> emptySlots c)"

text \<open>The record stored under a name, if any, has the given category and its shape.\<close>

definition storedAs :: "pstate \<Rightarrow> string \<Rightarrow> category \<Rightarrow> bool" where
  "storedAs st key c =
     (case map_of (personnelMap st) key of
        Some p \<Rightarrow> shapeMatches p \<and> category p = c
      | None \<Rightarrow> True)"

definition isSentinel :: "string \<Rightarrow> bool" where
  "isSentinel s = (toUpperCase s = ''NA'' \<or> toUpperCase s = ''MISSING'')"

text \<open>No two personnel rows of one name differ in the category of their service marker.\<close>

definition consistentMarkers :: "cell list list \<Rightarrow> bool" where
  "consistentMarkers rows =
     (\<forall>r1 \<in> set rows. \<forall>r2 \<in> set rows.
        isPersonnelRow r1 \<and> isPersonnelRow r2 \<and> rowKey r1 = rowKey r2
        \<longrightarrow> rowCategory r1 = rowCategory r2)"

text \<open>The post-pass keeps the ORD date of the record: there is none, or it passes
  \<^verbatim>\<open>validateDateInput(person.ordDate, true)\<close>.\<close>

definition ordDateAccepted :: "env \<Rightarrow> person \<Rightarrow> bool" where
  "ordDateAccepted e p =
     (\<not> (dateTruthy (ordDate p) \<and> validateDateInput e (ordDate p) True = None))"

text \<open>The records at the end of the row loop, before the post-pass.\<close>

definition mergedRecords :: "env \<Rightarrow> workbook \<Rightarrow> person list" where
  "mergedRecords e wb =
     (case scanSheets e wb of Inl err \<Rightarrow> [] | Inr st \<Rightarrow> map snd (personnelMap st))"

text \<open>A record without its creation time stamp.\<close>

definition unstamped :: "person \<Rightarrow> person" where
  "unstamped p = p\<lparr>lastUpdated := 0\<rparr>"



subsection \<open>Sample hosts and workbooks\<close>

text \<open>A host in the UTC+8 zone whose engine parses no string beyond the standard date
  form, and a second one that differs only in what the random generator returns.\<close>

definition hostA :: env where
  "hostA = \<lparr>legacyParse = (\<lambda>s. None),
            rowTime = (\<lambda>i. 1767225600000 + int i),
            now = 1767229200000,
            localDate = (\<lambda>y m d. utcDate y (m + 1) d - 28800000),
            generateRandomOrdDate = (\<lambda>k. ''2026-09-02'')\<rparr>"



definition rowTanWei :: "cell list" where
  "rowTanWei = [CStr [], CStr ''SGT'', CStr ''TAN WEI'', CStr ''A1'', CStr ''NSF'',
                CStr ''Gold'', CStr ''Pass'', CStr ''Pass'', CStr [], CStr [], CStr []]"

definition rowTanWeiReg :: "cell list" where
  "rowTanWeiReg = [CNull, CStr ''SGT'', CStr ''TAN WEI'', CStr ''A1'', CStr ''REG'']"

definition rowTanWeiRegGold :: "cell list" where
  "rowTanWeiRegGold = [CNull, CStr ''SGT'', CStr ''TAN WEI'', CStr ''A1'', CStr ''REG'',
                       CNull, CNull, CNull, CNull, CNull, CNull, CStr ''Gold'']"

definition rowTanWeiSecond :: "cell list" where
  "rowTanWeiSecond = [CStr [], CStr ''SGT'', CStr ''TAN WEI'', CStr ''A1'', CStr ''NSF'',
                      CStr ''NA'', CStr [], CStr ''Fail'', CStr ''Silver'', CStr ''Pass'',
                      CStr ''Marksman'']"

definition rowLimReg :: "cell list" where
  "rowLimReg = [CNull, CStr ''CPT'', CStr ''LIM HONG'', CStr ''B1'', CStr ''REG'',
                CNull, CNull, CNull, CNull, CNull, CNull, CStr ''MISSING'']"

definition rowTitle :: "cell list" where
  "rowTitle = [CStr ''SOFUN assessment overview'']"


definition rowVocTanWeiLater :: "cell list" where
  "rowVocTanWeiLater = [CNull, CStr ''SGT'', CStr ''TAN WEI'', CNull, CNull,
                        CStr ''01-03-26'', CStr ''01-06-26'']"

definition personLim :: person where
  "personLim = baseRecord ''LIM HONG'' Regular ''COY HQ'' ''CPT'' (Some ''B1'') 0"

definition personTan :: person where
  "personTan = baseRecord ''TAN WEI'' NSF ''Platoon 2'' ''SGT'' (Some ''A1'') 0"

definition bookOne :: workbook where
  "bookOne = [(''All in one view'', [rowTanWei])]"

definition bookFlip :: workbook where
  "bookFlip = [(''All in one view'', [rowTanWei, rowTanWeiReg])]"

definition bookFlipGold :: workbook where
  "bookFlipGold = [(''All in one view'', [rowTanWei, rowTanWeiRegGold])]"

definition sheetTitles :: "cell list list" where
  "sheetTitles =
     [rowTitle, [], [CStr ''Generated 2025''], [CStr ''Assessment results''], [],
      [CStr ''End of report'']]"

definition bookTitles :: workbook where
  "bookTitles = [(''All in one view'', sheetTitles)]"

text \<open>A sheet of titles whose last row holds the column headings.\<close>

definition rowHeadings :: "cell list" where
  "rowHeadings = [CStr ''S/N'', CStr ''RANK'', CStr ''NAME'', CStr ''PES'', CStr ''SERVICE'']"

definition sheetHeadings :: "cell list list" where
  "sheetHeadings = [rowTitle, [], [CStr ''Generated 2025''], [], rowHeadings]"

definition bookHeadings :: workbook where
  "bookHeadings = [(''All in one view'', sheetHeadings)]"

text \<open>The same sheet followed by the headings of a second table, for the regulars.\<close>

definition rowHeadingsRegular :: "cell list" where
  "rowHeadingsRegular =
     [CStr ''S/N'', CStr ''RANK'', CStr ''NAME'', CStr ''PES'', CStr ''SERVICE (REG)'',
      CNull, CNull, CNull, CNull, CNull, CNull, CStr ''IPPT'']"

definition bookTwoHeadings :: workbook where
  "bookTwoHeadings = [(''All in one view'', sheetHeadings @ [rowHeadingsRegular])]"

definition bookFlipBack :: workbook where
  "bookFlipBack = [(''All in one view'', [rowTanWeiRegGold, rowTanWei])]"


definition bookLaterOrd :: workbook where
  "bookLaterOrd = [(''All in one view'', [rowTanWei]), (''VOC'', [rowVocTanWeiLater])]"

definition bookSeven :: workbook where
  "bookSeven = [(''All in one view'', [rowTanWei, [CStr ''PLATOON 7''], rowLimReg])]"

definition bookLim :: workbook where
  "bookLim = [(''All in one view'', [rowLimReg])]"

section \<open>Properties\<close>

subsection \<open>An invariant of the records through the row loop and the post-pass\<close>

lemma mapSet_values: "kp \<in> set (mapSet k v m) \<Longrightarrow> snd kp = v \<or> kp \<in> set m"
  by (induction m) (auto split: if_splits)

lemma processDataRow_inv:
  assumes inv: "\<forall>kp\<in>set (personnelMap st). P (snd kp)"
      and base: "\<And>key c cp r ps t. P (baseRecord key c cp r ps t)"
      and adm: "\<And>cp r ps sv c p. P p \<Longrightarrow> P (updateAdmin cp r ps sv c p)"
      and voc: "\<And>key p. P p \<Longrightarrow> P (applyVocDates maps key p)"
      and res: "\<And>p p'. P p \<Longrightarrow> assignResults row p = Inr p' \<Longrightarrow> P p'"
      and step: "processDataRow clock maps i row st = Inr st'"
  shows "\<forall>kp\<in>set (personnelMap st'). P (snd kp)"
proof -
  define key where "key = rowKey row"
  define cat where "cat = rowCategory row"
  define person where "person = (case map_of (personnelMap st) key of Some p \<Rightarrow> p
     | None \<Rightarrow> baseRecord key cat (currentPlatoon st) (orEmpty (cellText row 1))
                (cellText row 3) (clock i))"
  define person1 where "person1 = applyVocDates maps key
     (updateAdmin (currentPlatoon st) (orEmpty (cellText row 1)) (cellText row 3)
        (cellText row 4) cat person)"
  have P0: "P person"
  proof (cases "map_of (personnelMap st) key")
    case None
    then show ?thesis unfolding person_def by (simp add: base)
  next
    case (Some p)
    then show ?thesis unfolding person_def using inv map_of_SomeD[OF Some] by auto
  qed
  have P1: "P person1"
    unfolding person1_def by (intro voc adm P0)
  from step obtain person2 where r: "assignResults row person1 = Inr person2"
    and st': "st' = st\<lparr>personnelMap := mapSet key person2 (personnelMap st)\<rparr>"
    unfolding processDataRow_def Let_def key_def cat_def person_def person1_def
    by (auto split: sum.splits)
  have P2: "P person2" using res[OF P1 r] .
  show ?thesis
    using mapSet_values[of _ key person2 "personnelMap st"] inv P2 unfolding st' by auto
qed

lemma processRow_inv:
  assumes inv: "\<forall>kp\<in>set (personnelMap st). P (snd kp)"
      and base: "\<And>key c cp r ps t. P (baseRecord key c cp r ps t)"
      and adm: "\<And>cp r ps sv c p. P p \<Longrightarrow> P (updateAdmin cp r ps sv c p)"
      and voc: "\<And>key p. P p \<Longrightarrow> P (applyVocDates maps key p)"
      and res: "\<And>p p'. P p \<Longrightarrow> assignResults row p = Inr p' \<Longrightarrow> P p'"
      and step: "processRow clock maps i row st = Inr st'"
  shows "\<forall>kp\<in>set (personnelMap st'). P (snd kp)"
proof (cases "processRow clock maps i row st = processDataRow clock maps i row st")
  case True
  with step have "processDataRow clock maps i row st = Inr st'" by simp
  from processDataRow_inv[of st P maps row clock i st', OF inv base adm voc res this]
  show ?thesis .
next
  case False
  with step have "personnelMap st' = personnelMap st"
    unfolding processRow_def Let_def by (auto split: if_splits)
  with inv show ?thesis by simp
qed

lemma processRows_inv:
  assumes base: "\<And>key c cp r ps t. P (baseRecord key c cp r ps t)"
      and adm: "\<And>cp r ps sv c p. P p \<Longrightarrow> P (updateAdmin cp r ps sv c p)"
      and voc: "\<And>key p. P p \<Longrightarrow> P (applyVocDates maps key p)"
      and res: "\<And>row p p'. P p \<Longrightarrow> assignResults row p = Inr p' \<Longrightarrow> P p'"
  shows "\<forall>kp\<in>set (personnelMap st). P (snd kp) \<Longrightarrow>
         processRows clock maps i rows st = Inr st' \<Longrightarrow>
         \<forall>kp\<in>set (personnelMap st'). P (snd kp)"
proof (induction rows arbitrary: i st)
  case Nil
  then show ?case by simp
next
  case (Cons row rows)
  from Cons.prems(2) obtain st1 where s1: "processRow clock maps i row st = Inr st1"
    and s2: "processRows clock maps (Suc i) rows st1 = Inr st'"
    by (auto split: sum.splits)
  have "\<forall>kp\<in>set (personnelMap st1). P (snd kp)"
    by (rule processRow_inv[of st P maps row clock i st1, OF Cons.prems(1) base adm voc res s1])
  from Cons.IH[OF this s2] show ?case .
qed

lemma postPass_all:
  assumes one: "\<And>k p ws. P p \<Longrightarrow> Q (fst (validateAndCleanPersonnelRecord e k p ws))"
  shows "\<forall>p\<in>set ps. P p \<Longrightarrow> \<forall>p\<in>set (fst (postPass e k ps ws)). Q p"
proof (induction ps arbitrary: k ws)
  case Nil
  then show ?case by simp
next
  case (Cons p ps)
  obtain p' ws' where c: "validateAndCleanPersonnelRecord e k p ws = (p', ws')" by force
  obtain ps' ws'' where r: "postPass e (Suc k) ps ws' = (ps', ws'')" by force
  have "Q p'" using one[of p k ws] Cons.prems c by simp
  moreover have "\<forall>q\<in>set ps'. Q q" using Cons.IH[of "Suc k" ws'] Cons.prems r by simp
  ultimately show ?case using c r by simp
qed

text \<open>The two lemmas above, put together for the records that \<^verbatim>\<open>processExcelFile\<close>
  returns: a property that every new record has, that the updates of a row keep and that
  the post-pass turns into \<open>Q\<close>, gives \<open>Q\<close> for every record of the result.\<close>

lemma processExcelFile_all:
  assumes base: "\<And>key c cp r ps t. P (baseRecord key c cp r ps t)"
      and adm: "\<And>cp r ps sv c p. P p \<Longrightarrow> P (updateAdmin cp r ps sv c p)"
      and voc: "\<And>maps key p. P p \<Longrightarrow> P (applyVocDates maps key p)"
      and res: "\<And>row p p'. P p \<Longrightarrow> assignResults row p = Inr p' \<Longrightarrow> P p'"
      and post: "\<And>k p ws. P p \<Longrightarrow> Q (fst (validateAndCleanPersonnelRecord e k p ws))"
  shows "\<forall>p \<in> set (data (processExcelFile e wb)). Q p"
proof (cases "scanSheets e wb")
  case (Inl err)
  then show ?thesis by (simp add: processExcelFile_def rejected_def)
next
  case (Inr st)
  have "\<forall>kp\<in>set (personnelMap st). P (snd kp)"
  proof (cases "findSheet ''all in one view'' wb")
    case None
    with Inr show ?thesis by (simp add: scanSheets_def)
  next
    case (Some rawData)
    define maps where "maps = (case findSheet ''voc'' wb of
                         Some vocData \<Rightarrow> vocScan (legacyParse e) vocData
                       | None \<Rightarrow> emptyVocMaps)"
    have run: "processRows (rowTime e) maps (findDataStartRow rawData)
                 (drop (findDataStartRow rawData) rawData) initialState = Inr st"
      using Inr Some by (simp add: scanSheets_def Let_def maps_def)
    have "\<forall>kp\<in>set (personnelMap initialState). P (snd kp)" by (simp add: initialState_def)
    from processRows_inv[where P=P, OF base adm voc res this run] show ?thesis .
  qed
  then have "\<forall>p\<in>set (map snd (personnelMap st)). P p" by auto
  then have "\<forall>p\<in>set (fst (postPass e 0 (map snd (personnelMap st)) (warningsSoFar st))). Q p"
    by (rule postPass_all[where P=P, rotated]) (rule post)
  then show ?thesis using Inr
    by (simp add: processExcelFile_def Let_def split: prod.splits)
qed

subsection \<open>Medical status\<close>

lemma medicalStatus_updateAdmin:
  "medicalStatus (updateAdmin cp r ps sv c p) = medicalStatus p"
  by (simp add: updateAdmin_def Let_def)

lemma medicalStatus_applyVocDates:
  "medicalStatus (applyVocDates maps key p) = medicalStatus p"
  by (simp add: applyVocDates_def Let_def split: option.splits)

lemma medicalStatus_assignResults:
  "assignResults row p = Inr p' \<Longrightarrow> medicalStatus p' = medicalStatus p"
  by (auto simp: assignResults_def Let_def split: if_splits assessment.splits)

lemma medicalStatus_clean:
  "medicalStatus p = ''Fit'' \<Longrightarrow>
   medicalStatus (fst (validateAndCleanPersonnelRecord e k p ws)) = ''Fit''"
  by (simp add: validateAndCleanPersonnelRecord_def Let_def MEDICAL_STATUS_OPTIONS_def
      split: prod.splits)

lemma medicalStatus_reset:
  "medicalStatus q \<notin> set MEDICAL_STATUS_OPTIONS \<Longrightarrow>
   medicalStatus (fst (validateAndCleanPersonnelRecord e k q ws)) = ''Fit''"
  unfolding validateAndCleanPersonnelRecord_def
  by (cases "isValidPlatoon (platoon q)";
      cases "dateTruthy (ordDate q) \<and> validateDateInput e (ordDate q) True = None")
     (simp_all add: Let_def)

lemma medicalStatus_silent:
  "snd (validateAndCleanPersonnelRecord e k (q\<lparr>medicalStatus := x\<rparr>) ws)
   = snd (validateAndCleanPersonnelRecord e k q ws)"
  unfolding validateAndCleanPersonnelRecord_def
  by (cases "isValidPlatoon (platoon q)"; cases "medicalStatus q \<in> set MEDICAL_STATUS_OPTIONS";
      cases "x \<in> set MEDICAL_STATUS_OPTIONS";
      cases "dateTruthy (ordDate q) \<and> validateDateInput e (ordDate q) True = None")
     (simp_all add: Let_def)

text \<open>
  Claim C10. Every record that the spreadsheet ingestion returns has the medical status
  \<^verbatim>\<open>Fit\<close>: a record is created with it, no row changes it, and the post-pass leaves a
  value of the enumeration as it is. The post-pass resets a value outside the enumeration
  to \<^verbatim>\<open>Fit\<close>, and its warnings do not depend on the medical status.
\<close>

theorem ingestion_medicalStatus_Fit:
  "(\<forall>p \<in> set (data (processExcelFile e wb)). medicalStatus p = ''Fit'')
   \<and> medicalStatus (baseRecord key c cp r ps t) = ''Fit''
   \<and> (medicalStatus q \<notin> set MEDICAL_STATUS_OPTIONS \<longrightarrow>
        medicalStatus (fst (validateAndCleanPersonnelRecord e k q ws)) = ''Fit'')
   \<and> snd (validateAndCleanPersonnelRecord e k (q\<lparr>medicalStatus := x\<rparr>) ws)
       = snd (validateAndCleanPersonnelRecord e k q ws)"
proof (intro conjI impI)
  show "\<forall>p \<in> set (data (processExcelFile e wb)). medicalStatus p = ''Fit''"
    by (rule processExcelFile_all[where P="\<lambda>p. medicalStatus p = ''Fit''"])
       (simp_all add: baseRecord_def medicalStatus_updateAdmin medicalStatus_applyVocDates
          medicalStatus_assignResults medicalStatus_clean)
  show "medicalStatus (baseRecord key c cp r ps t) = ''Fit''"
    by (simp add: baseRecord_def)
  show "snd (validateAndCleanPersonnelRecord e k (q\<lparr>medicalStatus := x\<rparr>) ws)
       = snd (validateAndCleanPersonnelRecord e k q ws)"
    by (rule medicalStatus_silent)
next
  assume "medicalStatus q \<notin> set MEDICAL_STATUS_OPTIONS"
  then show "medicalStatus (fst (validateAndCleanPersonnelRecord e k q ws)) = ''Fit''"
    by (rule medicalStatus_reset)
qed

lemma bookOne_count: "length (data (processExcelFile hostA bookOne)) = 1"
  by code_simp

lemma sample_status: "medicalStatus (personTan\<lparr>medicalStatus := ''Unknown''\<rparr>)
                        \<notin> set MEDICAL_STATUS_OPTIONS"
  by code_simp

theorem ingestion_medicalStatus_Fit_witness:
  "data (processExcelFile hostA bookOne) \<noteq> []
   \<and> medicalStatus (hd (data (processExcelFile hostA bookOne))) = ''Fit''
   \<and> medicalStatus (fst (validateAndCleanPersonnelRecord hostA 0
          (personTan\<lparr>medicalStatus := ''Unknown''\<rparr>) [])) = ''Fit''"
proof -
  note T = ingestion_medicalStatus_Fit [where e = hostA and wb = bookOne
             and q = "personTan\<lparr>medicalStatus := ''Unknown''\<rparr>" and k = 0 and ws = "[]"]
  have ne: "data (processExcelFile hostA bookOne) \<noteq> []"
    using bookOne_count by auto
  then have "hd (data (processExcelFile hostA bookOne)) \<in> set (data (processExcelFile hostA bookOne))"
    by simp
  with T [THEN conjunct1]
  have c1: "medicalStatus (hd (data (processExcelFile hostA bookOne))) = ''Fit''" by blast
  note c2 = T [THEN conjunct2, THEN conjunct2, THEN conjunct1, THEN mp, OF sample_status]
  from ne c1 c2 show ?thesis by (intro conjI)
qed

subsection \<open>parseDate on numbers\<close>

lemma parseDate_number: "parseDate legacy (CNum n) = None"
  by (simp add: parseDate_def)

lemma parseDate_dashed: "parseDate legacy (CStr ''14-11-25'') = Some (utcDate 2025 11 14)"
  by code_simp

lemma parseDate_compact: "parseDate legacy (CStr ''141125'') = Some (utcDate 2025 11 14)"
  by code_simp

lemma utcDate_2025_11_14: "utcDate 2025 11 14 = 1763078400000"
  by code_simp

text \<open>
  Claim C2. \<^verbatim>\<open>parseDate\<close> returns \<^verbatim>\<open>null\<close> for every number, the six-digit \<^verbatim>\<open>141125\<close> and
  every date serial included: its first statement returns for any argument that is not a
  string, so the branch written for numbers is never reached. The strings
  \<^verbatim>\<open>"14-11-25"\<close> and \<^verbatim>\<open>"141125"\<close> do parse to 2025-11-14.
\<close>

theorem parseDate_numeric_input_is_null:
  "parseDate legacy (CNum n) = None
   \<and> parseDate legacy (CStr ''14-11-25'') = Some (utcDate 2025 11 14)
   \<and> parseDate legacy (CStr ''141125'') = Some (utcDate 2025 11 14)"
  using parseDate_number parseDate_dashed parseDate_compact by simp

theorem parseDate_numeric_input_is_null_witness:
  "parseDate (legacyParse hostA) (CNum 141125) = None
   \<and> parseDate (legacyParse hostA) (CNum 45975) = None
   \<and> parseDate (legacyParse hostA) (CStr ''14-11-25'') = Some 1763078400000"
  using parseDate_numeric_input_is_null [of "legacyParse hostA" 141125]
        parseDate_numeric_input_is_null [of "legacyParse hostA" 45975]
        utcDate_2025_11_14
  by simp

subsection \<open>validatePlatoon\<close>

lemma partialMatch_valid: "partialMatch l = Some v \<Longrightarrow> v \<in> set validPlatoons"
  unfolding partialMatch_def by (auto simp: find_Some_iff)

lemma validPlatoons_members:
  "''Platoon 1'' \<in> set validPlatoons" "''Platoon 2'' \<in> set validPlatoons"
  "''Platoon 3'' \<in> set validPlatoons" "''Platoon 4'' \<in> set validPlatoons"
  "''COY HQ'' \<in> set validPlatoons" "''Support Platoon'' \<in> set validPlatoons"
  "''Admin'' \<in> set validPlatoons" "''Medical'' \<in> set validPlatoons"
  "''Signals'' \<in> set validPlatoons" "''Transport'' \<in> set validPlatoons"
  "''Unassigned'' \<in> set validPlatoons"
  by (simp_all add: validPlatoons_def)

lemma if_mem: "(c \<Longrightarrow> a \<in> S) \<Longrightarrow> (\<not> c \<Longrightarrow> b \<in> S) \<Longrightarrow> (if c then a else b) \<in> S"
  by simp

lemma partialMatch_or_default:
  "(case partialMatch l of Some valid \<Rightarrow> valid | None \<Rightarrow> ''Unassigned'') \<in> set validPlatoons"
  using partialMatch_valid[of l] validPlatoons_members(11) by (cases "partialMatch l") simp_all

lemma validatePlatoon_closed: "validatePlatoon p \<in> set validPlatoons"
proof (cases p)
  case None
  then show ?thesis by (simp add: validatePlatoon_def validPlatoons_members)
next
  case (Some s)
  show ?thesis
    unfolding Some validatePlatoon_def Let_def option.case
    by (intro if_mem validPlatoons_members partialMatch_or_default)
qed

lemma empty_not_valid: "[] \<notin> set validPlatoons"
  by (simp add: validPlatoons_def)

lemma trim_Nil: "trim [] = []"
  by (simp add: trim_def)

lemma validatePlatoon_exact:
  assumes "trim s \<in> set validPlatoons"
  shows "validatePlatoon (Some s) = trim s"
proof -
  have "trim s \<noteq> []" using assms empty_not_valid by auto
  moreover then have "s \<noteq> []" using trim_Nil by auto
  ultimately show ?thesis using assms unfolding validatePlatoon_def Let_def option.case
    by (simp only: if_False if_True simp_thms)
qed

lemma validatePlatoon_numbered:
  assumes "trim s \<notin> set validPlatoons"
      and "\<not> strIncludes (toLowerCase (trim s)) ''coy''"
      and "\<not> strIncludes (toLowerCase (trim s)) ''hq''"
      and "\<not> strIncludes (toLowerCase (trim s)) ''headquarters''"
      and "strIncludes (toLowerCase (trim s)) ''platoon'' \<or> strIncludes (toLowerCase (trim s)) ''plt''"
  shows "validatePlatoon (Some s) =
           (if strIncludes (toLowerCase (trim s)) ''1'' \<or> strIncludes (toLowerCase (trim s)) ''one''
              then ''Platoon 1''
            else if strIncludes (toLowerCase (trim s)) ''2'' \<or> strIncludes (toLowerCase (trim s)) ''two''
              then ''Platoon 2''
            else if strIncludes (toLowerCase (trim s)) ''3'' \<or> strIncludes (toLowerCase (trim s)) ''three''
              then ''Platoon 3''
            else if strIncludes (toLowerCase (trim s)) ''4'' \<or> strIncludes (toLowerCase (trim s)) ''four''
              then ''Platoon 4''
            else ''Platoon 1'')"
proof -
  have "strIncludes [] ''platoon'' = False" "strIncludes [] ''plt'' = False" by simp_all
  then have "toLowerCase (trim s) \<noteq> []" using assms(5) by auto
  then have "trim s \<noteq> []" by (auto simp: toLowerCase_def)
  moreover then have "s \<noteq> []" using trim_Nil by auto
  ultimately show ?thesis using assms unfolding validatePlatoon_def Let_def option.case
    by (simp only: if_False if_True simp_thms)
qed

lemma validatePlatoon_fallback:
  assumes "trim s \<notin> set validPlatoons"
      and "\<forall>kw \<in> set [''coy'', ''hq'', ''headquarters'', ''platoon'', ''plt'', ''support'',
                        ''admin'', ''medical'', ''med'', ''signal'', ''transport'', ''trans''].
             \<not> strIncludes (toLowerCase (trim s)) kw"
      and "partialMatch (toLowerCase (trim s)) = None"
  shows "validatePlatoon (Some s) = ''Unassigned''"
proof -
  have kw: "\<not> strIncludes (toLowerCase (trim s)) ''coy''"
    "\<not> strIncludes (toLowerCase (trim s)) ''hq''"
    "\<not> strIncludes (toLowerCase (trim s)) ''headquarters''"
    "\<not> strIncludes (toLowerCase (trim s)) ''platoon''"
    "\<not> strIncludes (toLowerCase (trim s)) ''plt''"
    "\<not> strIncludes (toLowerCase (trim s)) ''support''"
    "\<not> strIncludes (toLowerCase (trim s)) ''admin''"
    "\<not> strIncludes (toLowerCase (trim s)) ''medical''"
    "\<not> strIncludes (toLowerCase (trim s)) ''med''"
    "\<not> strIncludes (toLowerCase (trim s)) ''signal''"
    "\<not> strIncludes (toLowerCase (trim s)) ''transport''"
    "\<not> strIncludes (toLowerCase (trim s)) ''trans''"
    using assms(2) by simp_all
  show ?thesis
    unfolding validatePlatoon_def Let_def option.case
    using assms(1,3) kw
    by (simp only: if_False if_True simp_thms option.case if_cancel)
qed

lemma validatePlatoon_3_PLT: "validatePlatoon (Some ''3 PLT'') = ''Platoon 3''"
  by code_simp

lemma validatePlatoon_xyz: "validatePlatoon (Some ''xyz'') = ''Unassigned''"
  by code_simp

text \<open>
  Claim C7, the claim as stated fails: \<^verbatim>\<open>validatePlatoon\<close> takes no category, and the label
  \<^verbatim>\<open>"xyz"\<close>, which no rule matches, resolves to \<^verbatim>\<open>Unassigned\<close>, not to the default platoon
  of an NSF record (nor to a name of \<^verbatim>\<open>VALID_PLATOONS\<close>). Besides, a label with \<^verbatim>\<open>platoon\<close>
  and the digit 5 maps to platoon 1, one with \<^verbatim>\<open>HQ\<close> before \<^verbatim>\<open>platoon 3\<close> maps to the
  headquarters, and a match of the vocabulary is returned trimmed.
\<close>

theorem validatePlatoon_default_counterexample:
  "validatePlatoon (Some ''xyz'') = ''Unassigned''
   \<and> defaultPlatoon NSF = ''Platoon 1''
   \<and> validatePlatoon (Some ''xyz'') \<noteq> defaultPlatoon NSF
   \<and> \<not> isValidPlatoon (validatePlatoon (Some ''xyz''))
   \<and> validatePlatoon (Some ''platoon 5'') = ''Platoon 1''
   \<and> validatePlatoon (Some ''HQ platoon 3'') = ''COY HQ''
   \<and> validatePlatoon (Some '' Admin '') = ''Admin''"
  by code_simp

text \<open>
  Claim C7, as amended. \<^verbatim>\<open>validatePlatoon\<close> depends on the label only. A label whose
  trimmed text is in the function's vocabulary is returned trimmed; a label that contains
  \<^verbatim>\<open>platoon\<close> or \<^verbatim>\<open>plt\<close> (and none of \<^verbatim>\<open>coy\<close>, \<^verbatim>\<open>hq\<close>, \<^verbatim>\<open>headquarters\<close>) maps to the numbered
  platoon of the first of 1/one, 2/two, 3/three, 4/four it contains, and to platoon 1 when it
  contains none, so \<^verbatim>\<open>"3 PLT"\<close> gives \<^verbatim>\<open>Platoon 3\<close>; when no rule matches the result is
  \<^verbatim>\<open>Unassigned\<close>, as for \<^verbatim>\<open>"xyz"\<close>. The result is always in the function's vocabulary, of
  which \<^verbatim>\<open>Unassigned\<close> is a member.
\<close>

theorem validatePlatoon_resolution:
  "validatePlatoon p \<in> set validPlatoons
   \<and> (trim s \<in> set validPlatoons \<longrightarrow> validatePlatoon (Some s) = trim s)
   \<and> (trim t \<notin> set validPlatoons
        \<and> \<not> strIncludes (toLowerCase (trim t)) ''coy''
        \<and> \<not> strIncludes (toLowerCase (trim t)) ''hq''
        \<and> \<not> strIncludes (toLowerCase (trim t)) ''headquarters''
        \<and> (strIncludes (toLowerCase (trim t)) ''platoon'' \<or> strIncludes (toLowerCase (trim t)) ''plt'')
      \<longrightarrow> validatePlatoon (Some t) =
           (if strIncludes (toLowerCase (trim t)) ''1'' \<or> strIncludes (toLowerCase (trim t)) ''one''
              then ''Platoon 1''
            else if strIncludes (toLowerCase (trim t)) ''2'' \<or> strIncludes (toLowerCase (trim t)) ''two''
              then ''Platoon 2''
            else if strIncludes (toLowerCase (trim t)) ''3'' \<or> strIncludes (toLowerCase (trim t)) ''three''
              then ''Platoon 3''
            else if strIncludes (toLowerCase (trim t)) ''4'' \<or> strIncludes (toLowerCase (trim t)) ''four''
              then ''Platoon 4''
            else ''Platoon 1''))
   \<and> (trim x \<notin> set validPlatoons
        \<and> (\<forall>kw \<in> set [''coy'', ''hq'', ''headquarters'', ''platoon'', ''plt'', ''support'',
                        ''admin'', ''medical'', ''med'', ''signal'', ''transport'', ''trans''].
             \<not> strIncludes (toLowerCase (trim x)) kw)
        \<and> partialMatch (toLowerCase (trim x)) = None
      \<longrightarrow> validatePlatoon (Some x) = ''Unassigned'')
   \<and> validatePlatoon (Some ''3 PLT'') = ''Platoon 3''
   \<and> validatePlatoon (Some ''xyz'') = ''Unassigned''"
  using validatePlatoon_closed validatePlatoon_exact validatePlatoon_numbered
        validatePlatoon_fallback validatePlatoon_3_PLT validatePlatoon_xyz
  by blast

lemma sample_labels:
  "trim '' Admin '' = ''Admin''" "''Admin'' \<in> set validPlatoons"
  "trim ''2nd plt'' \<notin> set validPlatoons"
  "\<not> strIncludes (toLowerCase (trim ''2nd plt'')) ''coy''"
  "\<not> strIncludes (toLowerCase (trim ''2nd plt'')) ''hq''"
  "\<not> strIncludes (toLowerCase (trim ''2nd plt'')) ''headquarters''"
  "strIncludes (toLowerCase (trim ''2nd plt'')) ''plt''"
  "\<not> strIncludes (toLowerCase (trim ''2nd plt'')) ''1''"
  "\<not> strIncludes (toLowerCase (trim ''2nd plt'')) ''one''"
  "strIncludes (toLowerCase (trim ''2nd plt'')) ''2''"
  by code_simp+

lemma sample_label_unmatched:
  "trim ''zulu'' \<notin> set validPlatoons"
  "\<forall>kw \<in> set [''coy'', ''hq'', ''headquarters'', ''platoon'', ''plt'', ''support'',
                 ''admin'', ''medical'', ''med'', ''signal'', ''transport'', ''trans''].
      \<not> strIncludes (toLowerCase (trim ''zulu'')) kw"
  "partialMatch (toLowerCase (trim ''zulu'')) = None"
  by code_simp+

theorem validatePlatoon_resolution_witness:
  "validatePlatoon (Some '' Admin '') = ''Admin''
   \<and> validatePlatoon (Some ''2nd plt'') = ''Platoon 2''
   \<and> validatePlatoon (Some ''zulu'') = ''Unassigned''
   \<and> validatePlatoon None \<in> set validPlatoons"
  using validatePlatoon_resolution [of None "'' Admin ''" "''2nd plt''" "''zulu''"]
        sample_labels sample_label_unmatched
  by simp

subsection \<open>Section headers\<close>

lemma length_toUpperCase: "length (toUpperCase s) = length s"
  by (simp add: toUpperCase_def)

lemma platoonMatch_iff:
  "platoonMatch s = Some d \<longleftrightarrow>
     (\<exists>p ws. s = p @ ws @ [d] \<and> toUpperCase p = ''PLATOON'' \<and> list_all isSpace ws \<and> isDigit d)"
proof
  assume m: "platoonMatch s = Some d"
  then have up: "toUpperCase (take 7 s) = ''PLATOON''" and ne: "drop 7 s \<noteq> []"
    and dg: "isDigit (last (drop 7 s))" and ws: "list_all isSpace (butlast (drop 7 s))"
    and d: "d = last (drop 7 s)"
    by (auto simp: platoonMatch_def Let_def split: if_splits)
  have "butlast (drop 7 s) @ [last (drop 7 s)] = drop 7 s"
    using ne by (rule append_butlast_last_id)
  then have "s = take 7 s @ butlast (drop 7 s) @ [last (drop 7 s)]"
    by (simp only: append_take_drop_id)
  with up ws dg d show "\<exists>p ws. s = p @ ws @ [d] \<and> toUpperCase p = ''PLATOON'' \<and> list_all isSpace ws \<and> isDigit d"
    by blast
next
  assume "\<exists>p ws. s = p @ ws @ [d] \<and> toUpperCase p = ''PLATOON'' \<and> list_all isSpace ws \<and> isDigit d"
  then obtain p ws where s: "s = p @ ws @ [d]" and up: "toUpperCase p = ''PLATOON''"
    and ws: "list_all isSpace ws" and dg: "isDigit d" by blast
  have "length p = 7" using length_toUpperCase[of p] up by simp
  then have "take 7 s = p" "drop 7 s = ws @ [d]" using s by simp_all
  then show "platoonMatch s = Some d" using up ws dg
    by (simp add: platoonMatch_def Let_def)
qed

lemma supportUnits_distinct:
  "u \<in> set supportUnits \<Longrightarrow> u' \<in> set supportUnits \<Longrightarrow>
   toUpperCase (stripSpaces u) = toUpperCase (stripSpaces u') \<Longrightarrow> u = u'"
proof -
  have "distinct (map (\<lambda>u. toUpperCase (stripSpaces u)) supportUnits)"
    by code_simp
  then have "inj_on (\<lambda>u. toUpperCase (stripSpaces u)) (set supportUnits)"
    by (simp only: distinct_map)
  then show "u \<in> set supportUnits \<Longrightarrow> u' \<in> set supportUnits \<Longrightarrow>
   toUpperCase (stripSpaces u) = toUpperCase (stripSpaces u') \<Longrightarrow> u = u'"
    by (auto dest: inj_onD)
qed

lemma supportUnits_nonempty: "u \<in> set supportUnits \<Longrightarrow> u \<noteq> []"
  by (auto simp: supportUnits_def)

lemma find_support_iff:
  "find (\<lambda>u. toUpperCase (stripSpaces raw) = toUpperCase (stripSpaces u)) supportUnits = Some u
   \<longleftrightarrow> u \<in> set supportUnits \<and> toUpperCase (stripSpaces raw) = toUpperCase (stripSpaces u)"
proof
  assume "find (\<lambda>u. toUpperCase (stripSpaces raw) = toUpperCase (stripSpaces u)) supportUnits = Some u"
  then show "u \<in> set supportUnits \<and> toUpperCase (stripSpaces raw) = toUpperCase (stripSpaces u)"
    by (auto simp: find_Some_iff)
next
  assume a: "u \<in> set supportUnits \<and> toUpperCase (stripSpaces raw) = toUpperCase (stripSpaces u)"
  then obtain v where v: "find (\<lambda>u. toUpperCase (stripSpaces raw) = toUpperCase (stripSpaces u)) supportUnits = Some v"
    by (cases "find (\<lambda>u. toUpperCase (stripSpaces raw) = toUpperCase (stripSpaces u)) supportUnits")
       (auto simp: find_None_iff)
  then have "v \<in> set supportUnits" "toUpperCase (stripSpaces raw) = toUpperCase (stripSpaces v)"
    by (auto simp: find_Some_iff)
  with a have "v = u" using supportUnits_distinct[of v u] by simp
  with v show "find (\<lambda>u. toUpperCase (stripSpaces raw) = toUpperCase (stripSpaces u)) supportUnits = Some u"
    by simp
qed

lemma strictHeader_empty: "strictHeader (Some []) = []"
  by (simp add: strictHeader_def)

lemma strictHeader_platoon:
  "raw \<noteq> [] \<Longrightarrow> platoonMatch raw = Some d \<Longrightarrow> strictHeader (Some raw) = ''Platoon '' @ [d]"
  by (simp add: strictHeader_def)

lemma strictHeader_support:
  "raw \<noteq> [] \<Longrightarrow> platoonMatch raw = None \<Longrightarrow>
   find (\<lambda>u. toUpperCase (stripSpaces raw) = toUpperCase (stripSpaces u)) supportUnits = Some v \<Longrightarrow>
   strictHeader (Some raw) = v"
  by (simp add: strictHeader_def)

lemma strictHeader_none:
  "raw \<noteq> [] \<Longrightarrow> platoonMatch raw = None \<Longrightarrow>
   find (\<lambda>u. toUpperCase (stripSpaces raw) = toUpperCase (stripSpaces u)) supportUnits = None \<Longrightarrow>
   strictHeader (Some raw) = []"
  by (simp add: strictHeader_def)

lemma strictHeader_iff:
  "strictHeader (Some raw) = u \<and> u \<noteq> [] \<longleftrightarrow>
     raw \<noteq> [] \<and>
     ((\<exists>d. platoonMatch raw = Some d \<and> u = ''Platoon '' @ [d])
      \<or> (platoonMatch raw = None \<and> u \<in> set supportUnits
          \<and> toUpperCase (stripSpaces raw) = toUpperCase (stripSpaces u)))"
proof (cases "raw = []")
  case True
  then show ?thesis using strictHeader_empty by auto
next
  case False
  show ?thesis
  proof (cases "platoonMatch raw")
    case (Some d)
    have "strictHeader (Some raw) = ''Platoon '' @ [d]"
      using strictHeader_platoon[OF False Some] .
    moreover have "''Platoon '' @ [d] \<noteq> []" by simp
    ultimately show ?thesis using False Some by auto
  next
    case None
    show ?thesis
    proof (cases "find (\<lambda>u. toUpperCase (stripSpaces raw) = toUpperCase (stripSpaces u)) supportUnits")
      case N: None
      have no: "\<not> (u \<in> set supportUnits \<and> toUpperCase (stripSpaces raw) = toUpperCase (stripSpaces u))"
        using find_support_iff[of raw u] N by simp
      have "strictHeader (Some raw) = []" using strictHeader_none[OF False None N] .
      then show ?thesis using no None by auto
    next
      case (Some v)
      then have v: "v \<in> set supportUnits" "toUpperCase (stripSpaces raw) = toUpperCase (stripSpaces v)"
        using find_support_iff[of raw v] by simp_all
      have uv: "u \<in> set supportUnits \<and> toUpperCase (stripSpaces raw) = toUpperCase (stripSpaces u) \<longleftrightarrow> u = v"
        using v supportUnits_distinct[of u v] by auto
      have sh: "strictHeader (Some raw) = v" using strictHeader_support[OF False None Some] .
      have "v \<noteq> []" using supportUnits_nonempty[OF v(1)] .
      then show ?thesis using sh uv None False by auto
    qed
  qed
qed


lemma isSpace_upperChar: "isSpace c \<Longrightarrow> upperChar c = c"
proof -
  have "list_all (\<lambda>c. upperChar c = c) [CHR '' '', CHR 0x09, CHR 0x0A, CHR 0x0B, CHR 0x0C, CHR 0x0D]"
    by code_simp
  then show "isSpace c \<Longrightarrow> upperChar c = c"
    unfolding isSpace_def list_all_iff by blast
qed

lemma isDigit_upperChar: "isDigit c \<Longrightarrow> upperChar c = c"
proof -
  have "list_all (\<lambda>c. upperChar c = c) ''0123456789''"
    by code_simp
  then show "isDigit c \<Longrightarrow> upperChar c = c"
    unfolding isDigit_def list_all_iff by blast
qed

lemma isDigit_not_space: "isDigit c \<Longrightarrow> \<not> isSpace c"
proof -
  have "list_all (\<lambda>c. \<not> isSpace c) ''0123456789''"
    by code_simp
  then show "isDigit c \<Longrightarrow> \<not> isSpace c"
    unfolding isDigit_def list_all_iff by blast
qed

lemma platoon_no_space:
  assumes "toUpperCase p = ''PLATOON''"
  shows "stripSpaces p = p"
proof -
  have "\<not> isSpace c" if c: "c \<in> set p" for c
  proof
    assume sp: "isSpace c"
    have "upperChar c \<in> set (toUpperCase p)" using c by (simp add: toUpperCase_def)
    then have "c \<in> set ''PLATOON''" using isSpace_upperChar[OF sp] assms by simp
    then show False using sp by (auto simp: isSpace_def)
  qed
  then show ?thesis by (simp add: stripSpaces_def)
qed

lemma stripSpaces_all_space: "list_all isSpace ws \<Longrightarrow> stripSpaces ws = []"
  by (induction ws) (auto simp: stripSpaces_def)

lemma stripSpaces_append: "stripSpaces (a @ b) = stripSpaces a @ stripSpaces b"
  by (simp add: stripSpaces_def)

lemma platoon_form_stripped:
  assumes "toUpperCase p = ''PLATOON''" "list_all isSpace ws" "isDigit d"
  shows "toUpperCase (stripSpaces (p @ ws @ [d])) = ''PLATOON'' @ [d]"
proof -
  have "stripSpaces [d] = [d]" using isDigit_not_space[OF assms(3)] by (simp add: stripSpaces_def)
  then have "stripSpaces (p @ ws @ [d]) = p @ [d]"
    using platoon_no_space[OF assms(1)] stripSpaces_all_space[OF assms(2)]
    by (simp add: stripSpaces_append)
  then show ?thesis using assms(1) isDigit_upperChar[OF assms(3)] by (simp add: toUpperCase_def)
qed

lemma supportUnits_lengths:
  "list_all (\<lambda>u. length (toUpperCase (stripSpaces u)) \<noteq> 8) supportUnits"
  by code_simp

lemma platoon_form_not_support:
  assumes "platoonMatch raw = Some d" "u \<in> set supportUnits"
  shows "toUpperCase (stripSpaces raw) \<noteq> toUpperCase (stripSpaces u)"
proof -
  from assms(1) obtain p ws where "raw = p @ ws @ [d]" "toUpperCase p = ''PLATOON''"
    "list_all isSpace ws" "isDigit d" using platoonMatch_iff[of raw d] by blast
  then have "length (toUpperCase (stripSpaces raw)) = 8"
    using platoon_form_stripped[of p ws d] by simp
  moreover have "length (toUpperCase (stripSpaces u)) \<noteq> 8"
    using supportUnits_lengths assms(2) by (simp add: list_all_iff)
  ultimately show ?thesis by metis
qed

lemma support_form_nonempty:
  assumes "u \<in> set supportUnits" "toUpperCase (stripSpaces raw) = toUpperCase (stripSpaces u)"
  shows "raw \<noteq> []"
proof
  assume "raw = []"
  then have "toUpperCase (stripSpaces u) = []" using assms(2) by (simp add: stripSpaces_def toUpperCase_def)
  moreover have "list_all (\<lambda>u. toUpperCase (stripSpaces u) \<noteq> []) supportUnits" by code_simp
  ultimately show False using assms(1) by (simp add: list_all_iff)
qed

lemma strictHeader_spec:
  "strictHeader (Some raw) = u \<and> u \<noteq> [] \<longleftrightarrow> matchSectionHeaderSpec raw u"
proof -
  have A: "(\<exists>p ws d. raw = p @ ws @ [d] \<and> toUpperCase p = ''PLATOON''
                 \<and> list_all isSpace ws \<and> isDigit d \<and> u = ''Platoon '' @ [d])
        \<longleftrightarrow> (\<exists>d. platoonMatch raw = Some d \<and> u = ''Platoon '' @ [d])"
    using platoonMatch_iff[of raw] by blast
  have B: "raw \<noteq> []" if "platoonMatch raw = Some d" for d
    using that platoonMatch_iff[of raw d] by auto
  show ?thesis
  proof (cases "platoonMatch raw")
    case None
    then show ?thesis
      unfolding matchSectionHeaderSpec_def A strictHeader_iff
      using support_form_nonempty[of u raw] by auto
  next
    case (Some d)
    then show ?thesis
      unfolding matchSectionHeaderSpec_def A strictHeader_iff
      using B[OF Some] platoon_form_not_support[OF Some, of u] by auto
  qed
qed

lemma strictHeader_None: "strictHeader None = []"
  by (simp add: strictHeader_def)

lemma keyword_iff:
  "hasUnitKeyword (Some raw) \<longleftrightarrow>
     strIncludes (toUpperCase raw) ''PLATOON'' \<or> strIncludes (toUpperCase raw) ''COY''
     \<or> strIncludes (toUpperCase raw) ''HQ''"
  by (cases raw) (auto simp: hasUnitKeyword_def toUpperCase_def)

text \<open>
  Claim C8. In the row loop, for a row that is not blank: when the first cell is a section
  header in the strict sense (\<^verbatim>\<open>PLATOON\<close> and one digit, or a support unit up to white space
  and letter case), the row only sets the current unit to that unit; when it is not, but
  contains \<^verbatim>\<open>PLATOON\<close>, \<^verbatim>\<open>COY\<close> or \<^verbatim>\<open>HQ\<close>, the row only adds the warning of an
  ambiguous header; and a row whose first cell is no strict section header never changes
  the current unit.
\<close>

theorem section_header_strict:
  "(\<not> isBlankRow row \<and> cellText row 0 = Some raw \<and> matchSectionHeaderSpec raw u
      \<longrightarrow> processRow clock maps i row st = Inr (st\<lparr>currentPlatoon := u\<rparr>))
   \<and> (\<not> isBlankRow row \<and> cellText row 0 = Some raw \<and> \<not> (\<exists>v. matchSectionHeaderSpec raw v)
        \<and> (strIncludes (toUpperCase raw) ''PLATOON'' \<or> strIncludes (toUpperCase raw) ''COY''
             \<or> strIncludes (toUpperCase raw) ''HQ'')
      \<longrightarrow> processRow clock maps i row st
            = Inr (st\<lparr>warningsSoFar := warningsSoFar st @ [AmbiguousHeader (i + 1) raw]\<rparr>))
   \<and> (\<not> (\<exists>r v. cellText row 0 = Some r \<and> matchSectionHeaderSpec r v)
        \<and> processRow clock maps i row st = Inr st'
      \<longrightarrow> currentPlatoon st' = currentPlatoon st)"
proof (intro conjI impI)
  assume a: "\<not> isBlankRow row \<and> cellText row 0 = Some raw \<and> matchSectionHeaderSpec raw u"
  then have "strictHeader (Some raw) = u" "u \<noteq> []" using strictHeader_spec[of raw u] by auto
  with a show "processRow clock maps i row st = Inr (st\<lparr>currentPlatoon := u\<rparr>)"
    by (simp add: processRow_def Let_def)
next
  assume a: "\<not> isBlankRow row \<and> cellText row 0 = Some raw \<and> \<not> (\<exists>v. matchSectionHeaderSpec raw v)
        \<and> (strIncludes (toUpperCase raw) ''PLATOON'' \<or> strIncludes (toUpperCase raw) ''COY''
             \<or> strIncludes (toUpperCase raw) ''HQ'')"
  then have "strictHeader (Some raw) = []"
    using strictHeader_spec[of raw "strictHeader (Some raw)"] by auto
  moreover have "hasUnitKeyword (Some raw)" using a keyword_iff[of raw] by simp
  ultimately show "processRow clock maps i row st
            = Inr (st\<lparr>warningsSoFar := warningsSoFar st @ [AmbiguousHeader (i + 1) raw]\<rparr>)"
    using a by (simp add: processRow_def Let_def orEmpty_def)
next
  assume a: "\<not> (\<exists>r v. cellText row 0 = Some r \<and> matchSectionHeaderSpec r v)
        \<and> processRow clock maps i row st = Inr st'"
  have sh: "strictHeader (cellText row 0) = []"
  proof (cases "cellText row 0")
    case None
    then show ?thesis by (simp add: strictHeader_None)
  next
    case (Some r)
    then show ?thesis using a strictHeader_spec[of r "strictHeader (Some r)"] by auto
  qed
  have "currentPlatoon st' = currentPlatoon st"
    if "processDataRow clock maps i row st = Inr st'"
    using that by (auto simp: processDataRow_def Let_def split: sum.splits)
  then show "currentPlatoon st' = currentPlatoon st"
    using a sh by (auto simp: processRow_def Let_def split: if_splits)
qed

lemma sample_headers:
  "\<not> isBlankRow [CStr ''platoon  2'']" "cellText [CStr ''platoon  2''] 0 = Some ''platoon  2''"
  "strictHeader (Some ''platoon  2'') = ''Platoon 2''"
  "\<not> isBlankRow [CStr ''HQ Platoon 2'']" "cellText [CStr ''HQ Platoon 2''] 0 = Some ''HQ Platoon 2''"
  "strictHeader (Some ''HQ Platoon 2'') = []"
  "strIncludes (toUpperCase ''HQ Platoon 2'') ''PLATOON''"
  "cellText rowTitle 0 = Some ''SOFUN assessment overview''"
  "strictHeader (Some ''SOFUN assessment overview'') = []"
  "processRow (rowTime hostA) emptyVocMaps 0 rowTitle initialState
     = Inr (initialState\<lparr>warningsSoFar := [MissingNameOrRank 1]\<rparr>)"
  by code_simp+

lemma no_strict_header:
  assumes "strictHeader (Some raw) = []"
  shows "\<not> (\<exists>v. matchSectionHeaderSpec raw v)"
proof
  assume "\<exists>v. matchSectionHeaderSpec raw v"
  then obtain v where "matchSectionHeaderSpec raw v" ..
  then have "strictHeader (Some raw) = v \<and> v \<noteq> []" by (rule iffD2[OF strictHeader_spec])
  with assms show False by simp
qed

theorem section_header_strict_witness:
  "processRow (rowTime hostA) emptyVocMaps 5 [CStr ''platoon  2''] initialState
     = Inr (initialState\<lparr>currentPlatoon := ''Platoon 2''\<rparr>)
   \<and> processRow (rowTime hostA) emptyVocMaps 5 [CStr ''HQ Platoon 2''] initialState
     = Inr (initialState\<lparr>warningsSoFar :=
              warningsSoFar initialState @ [AmbiguousHeader (5 + 1) ''HQ Platoon 2'']\<rparr>)
   \<and> currentPlatoon (initialState\<lparr>warningsSoFar := [MissingNameOrRank 1]\<rparr>)
     = currentPlatoon initialState"
proof -
  have "strictHeader (Some ''platoon  2'') = ''Platoon 2'' \<and> ''Platoon 2'' \<noteq> []"
    using sample_headers(3) by simp
  then have m1: "matchSectionHeaderSpec ''platoon  2'' ''Platoon 2''"
    by (rule iffD1[OF strictHeader_spec])
  have m2: "\<not> (\<exists>v. matchSectionHeaderSpec ''HQ Platoon 2'' v)"
    using sample_headers(6) by (rule no_strict_header)
  have "\<not> (\<exists>v. matchSectionHeaderSpec ''SOFUN assessment overview'' v)"
    using sample_headers(9) by (rule no_strict_header)
  then have m3: "\<not> (\<exists>r v. cellText rowTitle 0 = Some r \<and> matchSectionHeaderSpec r v)"
    by (simp only: sample_headers(8) option.inject ex_simps simp_thms) 
  have h1: "\<not> isBlankRow [CStr ''platoon  2''] \<and> cellText [CStr ''platoon  2''] 0 = Some ''platoon  2''
            \<and> matchSectionHeaderSpec ''platoon  2'' ''Platoon 2''"
    using sample_headers(1,2) m1 by (intro conjI)
  have h2: "\<not> isBlankRow [CStr ''HQ Platoon 2'']
            \<and> cellText [CStr ''HQ Platoon 2''] 0 = Some ''HQ Platoon 2''
            \<and> \<not> (\<exists>v. matchSectionHeaderSpec ''HQ Platoon 2'' v)
            \<and> (strIncludes (toUpperCase ''HQ Platoon 2'') ''PLATOON''
                \<or> strIncludes (toUpperCase ''HQ Platoon 2'') ''COY''
                \<or> strIncludes (toUpperCase ''HQ Platoon 2'') ''HQ'')"
    using sample_headers(4,5,7) m2 by (intro conjI disjI1)
  have h3: "\<not> (\<exists>r v. cellText rowTitle 0 = Some r \<and> matchSectionHeaderSpec r v)
            \<and> processRow (rowTime hostA) emptyVocMaps 0 rowTitle initialState
                = Inr (initialState\<lparr>warningsSoFar := [MissingNameOrRank 1]\<rparr>)"
    using m3 sample_headers(10) by (intro conjI)
  note c1 = section_header_strict [of "[CStr ''platoon  2'']" "''platoon  2''" "''Platoon 2''"
            "rowTime hostA" emptyVocMaps 5 initialState, THEN conjunct1, THEN mp, OF h1]
  note c2 = section_header_strict [of "[CStr ''HQ Platoon 2'']" "''HQ Platoon 2''" _
            "rowTime hostA" emptyVocMaps 5 initialState, THEN conjunct2, THEN conjunct1, THEN mp,
            OF h2]
  note c3 = section_header_strict [of rowTitle _ _ "rowTime hostA" emptyVocMaps 0 initialState
            "initialState\<lparr>warningsSoFar := [MissingNameOrRank 1]\<rparr>",
            THEN conjunct2, THEN conjunct2, THEN mp, OF h3]
  from c1 c2 c3 show ?thesis by (intro conjI)
qed

subsection \<open>Rows that are not personnel rows\<close>

lemma processRow_not_personnel:
  assumes "\<not> isPersonnelRow row"
  shows "\<exists>st'. processRow clock maps i row st = Inr st' \<and> personnelMap st' = personnelMap st"
  using assms unfolding isPersonnelRow_def processRow_def Let_def
  by (cases "isBlankRow row") auto

lemma processRows_no_personnel:
  "\<forall>row\<in>set rows. \<not> isPersonnelRow row \<Longrightarrow>
   \<exists>st'. processRows clock maps i rows st = Inr st' \<and> personnelMap st' = personnelMap st"
proof (induction rows arbitrary: i st)
  case Nil
  then show ?case by simp
next
  case (Cons row rows)
  then obtain st1 where s1: "processRow clock maps i row st = Inr st1"
    and m1: "personnelMap st1 = personnelMap st"
    using processRow_not_personnel[of row clock maps i st] by auto
  from Cons obtain st' where "processRows clock maps (Suc i) rows st1 = Inr st'"
    and "personnelMap st' = personnelMap st1"
    by (metis list.set_intros(2))
  with s1 m1 show ?case by simp
qed

subsection \<open>Rows whose service markers agree\<close>

text \<open>As long as no row changes the category of an existing record, every record carries
  the assessment properties of its category and no assignment throws.\<close>

lemma mapSet_entries: "kp \<in> set (mapSet k v m) \<Longrightarrow> kp = (k, v) \<or> kp \<in> set m"
  by (induction m) (auto split: if_splits)

lemma updateAdmin_category:
  "category (updateAdmin cp r ps sv c p)
   = (if nonEmpty sv \<and> category p \<noteq> c then c else category p)"
  by (simp add: updateAdmin_def Let_def)

lemma updateAdmin_assessment: "assessment (updateAdmin cp r ps sv c p) = assessment p"
  by (simp add: updateAdmin_def Let_def)

lemma applyVocDates_category: "category (applyVocDates maps key p) = category p"
  by (simp add: applyVocDates_def Let_def split: option.splits)

lemma applyVocDates_assessment: "assessment (applyVocDates maps key p) = assessment p"
  by (simp add: applyVocDates_def Let_def split: option.splits)

lemma assignResults_shape:
  assumes "shapeMatches p"
  shows "\<exists>p'. assignResults row p = Inr p' \<and> category p' = category p \<and> shapeMatches p'"
proof (cases "assessment p")
  case (Phases a b)
  then have "category p = NSF" using assms by (simp add: shapeMatches_def)
  then show ?thesis using Phases by (simp add: assignResults_def Let_def shapeMatches_def)
next
  case (WorkYear w)
  then have "category p = Regular" using assms by (simp add: shapeMatches_def)
  then show ?thesis using WorkYear by (simp add: assignResults_def Let_def shapeMatches_def)
qed

lemma baseRecord_shape:
  "shapeMatches (baseRecord key c cp r ps t)" "category (baseRecord key c cp r ps t) = c"
  by (cases c; simp add: baseRecord_def shapeMatches_def)+

lemma clean_category: "category (fst (validateAndCleanPersonnelRecord e k p ws)) = category p"
  unfolding validateAndCleanPersonnelRecord_def
  by (cases "isValidPlatoon (platoon p)"; cases "medicalStatus p \<in> set MEDICAL_STATUS_OPTIONS";
      cases "dateTruthy (ordDate p) \<and> validateDateInput e (ordDate p) True = None")
     (simp_all add: Let_def)

lemma clean_assessment:
  "assessment (fst (validateAndCleanPersonnelRecord e k p ws)) = assessment p"
  unfolding validateAndCleanPersonnelRecord_def
  by (cases "isValidPlatoon (platoon p)"; cases "medicalStatus p \<in> set MEDICAL_STATUS_OPTIONS";
      cases "dateTruthy (ordDate p) \<and> validateDateInput e (ordDate p) True = None")
     (simp_all add: Let_def)

lemma shapeMatches_cong:
  "category q = category p \<Longrightarrow> assessment q = assessment p \<Longrightarrow> shapeMatches q = shapeMatches p"
  by (cases "assessment p") (simp_all add: shapeMatches_def)

lemma clean_shape:
  "shapeMatches (fst (validateAndCleanPersonnelRecord e k p ws)) = shapeMatches p"
  by (rule shapeMatches_cong) (rule clean_category, rule clean_assessment)

lemma processRow_personnel:
  "isPersonnelRow row \<Longrightarrow> processRow clock maps i row st = processDataRow clock maps i row st"
  by (simp add: processRow_def isPersonnelRow_def Let_def)

lemma processDataRow_consistent:
  assumes inv: "\<forall>kp\<in>set (personnelMap st). shapeMatches (snd kp) \<and>
                 (\<forall>r\<in>set rows. isPersonnelRow r \<and> rowKey r = fst kp
                     \<longrightarrow> rowCategory r = category (snd kp))"
      and row: "row \<in> set rows" "isPersonnelRow row"
      and cons: "consistentMarkers rows"
  shows "\<exists>st'. processDataRow clock maps i row st = Inr st' \<and>
           (\<forall>kp\<in>set (personnelMap st'). shapeMatches (snd kp) \<and>
                 (\<forall>r\<in>set rows. isPersonnelRow r \<and> rowKey r = fst kp
                     \<longrightarrow> rowCategory r = category (snd kp)))"
proof -
  define key where "key = rowKey row"
  define cat where "cat = rowCategory row"
  define person where "person = (case map_of (personnelMap st) key of Some p \<Rightarrow> p
     | None \<Rightarrow> baseRecord key cat (currentPlatoon st) (orEmpty (cellText row 1))
                (cellText row 3) (clock i))"
  define person1 where "person1 = applyVocDates maps key
     (updateAdmin (currentPlatoon st) (orEmpty (cellText row 1)) (cellText row 3)
        (cellText row 4) cat person)"
  have P0: "shapeMatches person \<and> category person = cat"
  proof (cases "map_of (personnelMap st) key")
    case None
    then show ?thesis unfolding person_def by (simp add: baseRecord_shape)
  next
    case (Some p)
    then have "(key, p) \<in> set (personnelMap st)" by (rule map_of_SomeD)
    with inv row have "shapeMatches p" "rowCategory row = category p"
      unfolding key_def by auto
    then show ?thesis unfolding person_def cat_def using Some by simp
  qed
  have c1: "category person1 = category person"
    unfolding person1_def using P0
    by (simp add: applyVocDates_category updateAdmin_category)
  have a1: "assessment person1 = assessment person"
    unfolding person1_def by (simp add: applyVocDates_assessment updateAdmin_assessment)
  have P1: "shapeMatches person1 \<and> category person1 = cat"
    using P0 c1 shapeMatches_cong[OF c1 a1] by simp
  obtain person2 where r: "assignResults row person1 = Inr person2"
    and P2: "category person2 = cat" "shapeMatches person2"
    using assignResults_shape[of person1 row] P1 by auto
  have step: "processDataRow clock maps i row st
               = Inr (st\<lparr>personnelMap := mapSet key person2 (personnelMap st)\<rparr>)"
    unfolding processDataRow_def Let_def
    using r unfolding key_def cat_def person_def person1_def by simp
  have new: "\<forall>r\<in>set rows. isPersonnelRow r \<and> rowKey r = key \<longrightarrow> rowCategory r = category person2"
    using cons row P2(1) unfolding consistentMarkers_def key_def cat_def by metis
  have "\<forall>kp\<in>set (mapSet key person2 (personnelMap st)). shapeMatches (snd kp) \<and>
                 (\<forall>r\<in>set rows. isPersonnelRow r \<and> rowKey r = fst kp
                     \<longrightarrow> rowCategory r = category (snd kp))"
  proof
    fix kp assume "kp \<in> set (mapSet key person2 (personnelMap st))"
    then consider "kp = (key, person2)" | "kp \<in> set (personnelMap st)"
      using mapSet_entries by metis
    then show "shapeMatches (snd kp) \<and>
                 (\<forall>r\<in>set rows. isPersonnelRow r \<and> rowKey r = fst kp
                     \<longrightarrow> rowCategory r = category (snd kp))"
    proof cases
      case 1
      then show ?thesis using P2(2) new by simp
    next
      case 2
      then show ?thesis using inv by blast
    qed
  qed
  with step show ?thesis by simp
qed

lemma processRows_consistent:
  assumes cons: "consistentMarkers rows"
  shows "set rs \<subseteq> set rows \<Longrightarrow>
         \<forall>kp\<in>set (personnelMap st). shapeMatches (snd kp) \<and>
                 (\<forall>r\<in>set rows. isPersonnelRow r \<and> rowKey r = fst kp
                     \<longrightarrow> rowCategory r = category (snd kp)) \<Longrightarrow>
         \<exists>st'. processRows clock maps i rs st = Inr st' \<and>
           (\<forall>kp\<in>set (personnelMap st'). shapeMatches (snd kp))"
proof (induction rs arbitrary: i st)
  case Nil
  then show ?case by simp
next
  case (Cons row rs)
  have "\<exists>st1. processRow clock maps i row st = Inr st1 \<and>
           (\<forall>kp\<in>set (personnelMap st1). shapeMatches (snd kp) \<and>
                 (\<forall>r\<in>set rows. isPersonnelRow r \<and> rowKey r = fst kp
                     \<longrightarrow> rowCategory r = category (snd kp)))"
  proof (cases "isPersonnelRow row")
    case True
    have "row \<in> set rows" using Cons.prems(1) by simp
    from processDataRow_consistent[OF Cons.prems(2) this True cons, of clock maps i]
    show ?thesis by (simp only: processRow_personnel[OF True])
  next
    case False
    then obtain st1 where "processRow clock maps i row st = Inr st1"
      "personnelMap st1 = personnelMap st"
      using processRow_not_personnel[of row clock maps i st] by auto
    then show ?thesis using Cons.prems(2) by simp
  qed
  then obtain st1 where s1: "processRow clock maps i row st = Inr st1"
    and inv1: "\<forall>kp\<in>set (personnelMap st1). shapeMatches (snd kp) \<and>
                 (\<forall>r\<in>set rows. isPersonnelRow r \<and> rowKey r = fst kp
                     \<longrightarrow> rowCategory r = category (snd kp))"
    by blast
  have "set rs \<subseteq> set rows" using Cons.prems(1) by simp
  from Cons.IH[OF this inv1, of "Suc i"] s1 show ?case by simp
qed

text \<open>When the primary sheet is present and no two personnel rows of one name differ in
  the category of their service marker, the ingestion is not rejected, whatever else the
  rows hold, and every returned record carries the assessment properties of its
  category.\<close>

lemma consistent_markers_never_rejected:
  assumes sheet: "findSheet ''all in one view'' wb = Some rawData"
      and cons: "consistentMarkers (drop (findDataStartRow rawData) rawData)"
  shows "success (processExcelFile e wb) \<and> errors (processExcelFile e wb) = []
         \<and> (\<forall>p\<in>set (data (processExcelFile e wb)). shapeMatches p)"
proof -
  obtain st where sc: "scanSheets e wb = Inr st"
    and sh: "\<forall>kp\<in>set (personnelMap st). shapeMatches (snd kp)"
    using processRows_consistent[OF cons, of "drop (findDataStartRow rawData) rawData" initialState]
    unfolding scanSheets_def Let_def sheet option.case
    by (fastforce simp: initialState_def)
  then have "\<forall>p\<in>set (map snd (personnelMap st)). shapeMatches p" by auto
  then have "\<forall>p\<in>set (fst (postPass e 0 (map snd (personnelMap st)) (warningsSoFar st))).
               shapeMatches p"
    by (rule postPass_all[where P=shapeMatches, rotated]) (simp add: clean_shape)
  then show ?thesis using sc
    by (simp add: processExcelFile_def Let_def split: prod.splits)
qed

subsection \<open>A primary sheet without data rows\<close>

text \<open>When no row passes the test for the first data row, the row loop starts at the
  default index.\<close>

lemma findDataStartRow_default:
  assumes "\<forall>row \<in> set rawData. \<not> looksLikeData row"
  shows "findDataStartRow rawData = 4"
proof -
  have "find (\<lambda>i. looksLikeData (rawData ! i)) [0 ..< min 10 (length rawData)] = None"
    using assms by (simp add: find_None_iff)
  then show ?thesis by (simp add: findDataStartRow_def)
qed

text \<open>
  Claim C5, the claim as stated fails. A primary sheet of title and metadata rows only, none
  of which passes the test for a data row, is ingested with success and an empty error list,
  not with one structural error; the row without rank and name that the loop reaches adds a
  warning. When the last of the title rows holds the column headings \<^verbatim>\<open>RANK\<close> and \<^verbatim>\<open>NAME\<close>
  at index 4, the ingestion returns a record named \<^verbatim>\<open>NAME\<close>, again with no error.
\<close>

theorem no_data_rows_counterexample:
  "findSheet ''all in one view'' bookTitles = Some sheetTitles
   \<and> filter looksLikeData sheetTitles = []
   \<and> success (processExcelFile hostA bookTitles)
   \<and> data (processExcelFile hostA bookTitles) = []
   \<and> errors (processExcelFile hostA bookTitles) = []
   \<and> length (errors (processExcelFile hostA bookTitles)) \<noteq> 1
   \<and> warnings (processExcelFile hostA bookTitles) = [MissingNameOrRank 6]
   \<and> findSheet ''all in one view'' bookHeadings = Some sheetHeadings
   \<and> filter looksLikeData sheetHeadings = []
   \<and> success (processExcelFile hostA bookHeadings)
   \<and> map name (data (processExcelFile hostA bookHeadings)) = [''NAME'']
   \<and> errors (processExcelFile hostA bookHeadings) = []"
  by code_simp

text \<open>Two rows of column headings that differ in the category of their service cell are
  taken as two rows about the name \<^verbatim>\<open>NAME\<close>: the ingestion is rejected as for any name whose
  rows change category, although no row passes the test for a data row.\<close>

lemma headings_of_two_tables:
  "filter looksLikeData (sheetHeadings @ [rowHeadingsRegular]) = []
   \<and> \<not> consistentMarkers (drop 4 (sheetHeadings @ [rowHeadingsRegular]))
   \<and> processExcelFile e bookTwoHeadings = rejected (TypeError ''workYear'')"
  by code_simp

text \<open>
  Claim C5, as amended. If the primary sheet is present and none of its rows passes the
  test for a data row, the row loop starts at index 4 and the ingestion reports no
  structural error: it succeeds with an empty error list, as long as no two rows give one
  name two categories. If moreover every row from index 4 on lacks a rank or a name, the
  record list is empty. What a row of column headings with both cells yields is left open.
\<close>

theorem no_data_rows_no_error:
  assumes sheet: "findSheet ''all in one view'' wb = Some rawData"
      and none: "\<forall>row \<in> set rawData. \<not> looksLikeData row"
      and cons: "consistentMarkers (drop (findDataStartRow rawData) rawData)"
  shows "findDataStartRow rawData = 4
         \<and> success (processExcelFile e wb) \<and> errors (processExcelFile e wb) = []
         \<and> ((\<forall>row \<in> set (drop 4 rawData).
                \<not> nonEmpty (cellText row 1) \<or> \<not> nonEmpty (cellText row 2))
             \<longrightarrow> data (processExcelFile e wb) = []
                 \<and> recordCount (processExcelFile e wb) = 0)"
proof (intro conjI impI)
  show start: "findDataStartRow rawData = 4"
    using none by (rule findDataStartRow_default)
  show "success (processExcelFile e wb)" "errors (processExcelFile e wb) = []"
    using consistent_markers_never_rejected[OF sheet cons, of e] by simp_all
  assume "\<forall>row \<in> set (drop 4 rawData).
            \<not> nonEmpty (cellText row 1) \<or> \<not> nonEmpty (cellText row 2)"
  then have np: "\<forall>row \<in> set (drop (findDataStartRow rawData) rawData). \<not> isPersonnelRow row"
    unfolding start isPersonnelRow_def by blast
  obtain st where "scanSheets e wb = Inr st" and "personnelMap st = personnelMap initialState"
    using processRows_no_personnel[OF np] sheet
    unfolding scanSheets_def Let_def by (fastforce simp: sheet)
  then show "data (processExcelFile e wb) = []" "recordCount (processExcelFile e wb) = 0"
    by (simp_all add: processExcelFile_def Let_def initialState_def)
qed

lemma sheetTitles_facts:
  "findSheet ''all in one view'' bookTitles = Some sheetTitles"
  "\<forall>row \<in> set sheetTitles. \<not> looksLikeData row"
  "consistentMarkers (drop (findDataStartRow sheetTitles) sheetTitles)"
  "\<forall>row \<in> set (drop 4 sheetTitles). \<not> nonEmpty (cellText row 1) \<or> \<not> nonEmpty (cellText row 2)"
  by code_simp+

lemma sheetHeadings_facts:
  "findSheet ''all in one view'' bookHeadings = Some sheetHeadings"
  "\<forall>row \<in> set sheetHeadings. \<not> looksLikeData row"
  "consistentMarkers (drop (findDataStartRow sheetHeadings) sheetHeadings)"
  by code_simp+

theorem no_data_rows_no_error_witness:
  "findDataStartRow sheetTitles = 4
   \<and> success (processExcelFile hostA bookTitles)
   \<and> errors (processExcelFile hostA bookTitles) = []
   \<and> data (processExcelFile hostA bookTitles) = []
   \<and> recordCount (processExcelFile hostA bookTitles) = 0
   \<and> findDataStartRow sheetHeadings = 4
   \<and> success (processExcelFile hostA bookHeadings)
   \<and> errors (processExcelFile hostA bookHeadings) = []"
proof -
  note T = no_data_rows_no_error [OF sheetTitles_facts(1-3), of hostA]
  note H = no_data_rows_no_error [OF sheetHeadings_facts, of hostA]
  note t4 = T [THEN conjunct2, THEN conjunct2, THEN conjunct2, THEN mp, OF sheetTitles_facts(4)]
  from T [THEN conjunct1] T [THEN conjunct2, THEN conjunct1]
       T [THEN conjunct2, THEN conjunct2, THEN conjunct1]
       t4 [THEN conjunct1] t4 [THEN conjunct2]
       H [THEN conjunct1] H [THEN conjunct2, THEN conjunct1]
       H [THEN conjunct2, THEN conjunct2, THEN conjunct1]
  show ?thesis by (intro conjI)
qed

subsection \<open>A later row with another service marker\<close>

text \<open>
  Claim C3. The second row for TAN WEI carries the marker \<^verbatim>\<open>REG\<close>: the record, created as
  NSF by the first row, ends with the category Regular and still carries the \<^verbatim>\<open>y1\<close>/\<^verbatim>\<open>y2\<close>
  slots of the row that created it; it has no \<^verbatim>\<open>workYear\<close>.
\<close>

theorem category_flip_keeps_shape:
  "success (processExcelFile e bookFlip)
   \<and> map name (data (processExcelFile e bookFlip)) = [''TAN WEI'']
   \<and> map category (data (processExcelFile e bookFlip)) = [Regular]
   \<and> map assessment (data (processExcelFile e bookFlip))
       = [Phases (emptyY1\<lparr>y1_ippt := ''Gold'', y1_voc := ''Pass'', y1_atp := ''Pass''\<rparr>) emptyY2]
   \<and> map shapeMatches (data (processExcelFile e bookFlip)) = [False]"
  by code_simp

text \<open>
  Claim C1. The primary sheet is present, and the second row for TAN WEI carries the
  marker \<^verbatim>\<open>REG\<close> and a work-year fitness result: the assignment to
  \<^verbatim>\<open>person.workYear.ippt\<close> throws, the \<^verbatim>\<open>catch\<close> of \<^verbatim>\<open>processExcelFile\<close> takes it, and the
  whole ingestion is rejected with no record.
\<close>

theorem category_flip_rejects_ingestion:
  "findSheet ''all in one view'' bookFlipGold = Some [rowTanWei, rowTanWeiRegGold]
   \<and> processExcelFile e bookFlipGold = rejected (TypeError ''workYear'')
   \<and> \<not> success (processExcelFile e bookFlipGold)
   \<and> data (processExcelFile e bookFlipGold) = []
   \<and> errors (processExcelFile e bookFlipGold) = [TypeError ''workYear'']"
  by code_simp

subsection \<open>Unit and platoon\<close>

lemma platoon_clean:
  "isValidPlatoon (platoon (fst (validateAndCleanPersonnelRecord e k p ws)))"
  unfolding validateAndCleanPersonnelRecord_def
  by (cases "isValidPlatoon (platoon p)"; cases "medicalStatus p \<in> set MEDICAL_STATUS_OPTIONS";
      cases "dateTruthy (ordDate p) \<and> validateDateInput e (ordDate p) True = None";
      cases "category p")
     (simp_all add: Let_def defaultPlatoon_def isValidPlatoon_def VALID_PLATOONS_def)

text \<open>The property \<^verbatim>\<open>platoon\<close> of every returned record is a name of \<^verbatim>\<open>VALID_PLATOONS\<close>:
  the post-pass replaces any other value.\<close>

lemma ingestion_platoon_valid:
  "\<forall>p \<in> set (data (processExcelFile e wb)). isValidPlatoon (platoon p)"
  by (rule processExcelFile_all[where P="\<lambda>p. True"]) (simp_all add: platoon_clean)

text \<open>
  Claim C6. A personnel row that no section header precedes creates a record whose
  \<^verbatim>\<open>platoon\<close> and \<^verbatim>\<open>unit\<close> are both \<^verbatim>\<open>Unassigned\<close>, and one under the header
  \<^verbatim>\<open>PLATOON 7\<close> a record whose \<^verbatim>\<open>platoon\<close> and \<^verbatim>\<open>unit\<close> are both \<^verbatim>\<open>Platoon 7\<close>. The
  post-pass replaces the \<^verbatim>\<open>platoon\<close> by the default of the category and leaves the
  \<^verbatim>\<open>unit\<close>, which is returned as it was: \<^verbatim>\<open>Unassigned\<close> is outside \<^verbatim>\<open>VALID_PLATOONS\<close>,
  and \<^verbatim>\<open>Platoon 7\<close> is outside both vocabularies.
\<close>

theorem unit_left_uncorrected:
  "map platoon (data (processExcelFile e bookOne)) = [''Platoon 1'']
   \<and> map unit (data (processExcelFile e bookOne)) = [''Unassigned'']
   \<and> warnings (processExcelFile e bookOne) = [InvalidPlatoon ''TAN WEI'' ''Unassigned'' ''Platoon 1'']
   \<and> \<not> isValidPlatoon ''Unassigned''
   \<and> map platoon (data (processExcelFile e bookSeven)) = [''Platoon 1'', ''COY HQ'']
   \<and> map unit (data (processExcelFile e bookSeven)) = [''Unassigned'', ''Platoon 7'']
   \<and> \<not> isValidPlatoon ''Platoon 7''
   \<and> ''Platoon 7'' \<notin> set validPlatoons"
  by code_simp

subsection \<open>Test-result slots\<close>

lemma toUpperCase_Nil: "toUpperCase [] = []"
  by (simp add: toUpperCase_def)

lemma usable_iff:
  "usable v \<longleftrightarrow> (\<exists>s. v = Some s \<and> s \<noteq> [] \<and> \<not> isSentinel s)"
  by (cases v) (auto simp: usable_def isSentinel_def)

lemma not_sentinel_assign: "\<not> isSentinel s \<Longrightarrow> \<not> isSentinel (assign v s)"
  by (cases v) (auto simp: assign_def usable_def isSentinel_def orEmpty_def)

lemma slotValues_updateAdmin: "slotValues (updateAdmin cp r ps sv c p) = slotValues p"
  by (simp add: updateAdmin_def Let_def slotValues_def)

lemma slotValues_applyVocDates: "slotValues (applyVocDates maps key p) = slotValues p"
  by (simp add: applyVocDates_def Let_def slotValues_def split: option.splits)

lemma slotValues_clean:
  "slotValues (fst (validateAndCleanPersonnelRecord e k p ws)) = slotValues p"
  by (simp add: validateAndCleanPersonnelRecord_def Let_def slotValues_def split: prod.splits)

lemma slotValues_assignResults:
  assumes "assignResults row p = Inr p'" "\<forall>s\<in>set (slotValues p). \<not> isSentinel s"
  shows "\<forall>s\<in>set (slotValues p'). \<not> isSentinel s"
proof (cases "assessment p")
  case (Phases a b)
  then show ?thesis using assms
    by (auto simp: assignResults_def Let_def slotValues_def not_sentinel_assign split: if_splits)
next
  case (WorkYear w)
  then show ?thesis using assms
    by (auto simp: assignResults_def Let_def slotValues_def not_sentinel_assign split: if_splits)
qed

lemma slotValues_base: "\<forall>s\<in>set (slotValues (baseRecord key c cp r ps t)). \<not> isSentinel s"
  by (simp add: baseRecord_def slotValues_def emptyY1_def emptyY2_def emptyWorkYear_def
      isSentinel_def toUpperCase_Nil)

lemma sentinels_never_stored:
  "\<forall>p \<in> set (data (processExcelFile e wb)). \<forall>s\<in>set (slotValues p). \<not> isSentinel s"
  by (rule processExcelFile_all[where P="\<lambda>p. \<forall>s\<in>set (slotValues p). \<not> isSentinel s"])
     (simp_all add: slotValues_base slotValues_updateAdmin slotValues_applyVocDates
        slotValues_assignResults slotValues_clean)

lemma assignResults_Regular:
  assumes "category p = Regular" "assessment p = WorkYear w"
  shows "assignResults row p = Inr (p\<lparr>assessment := WorkYear
           (w\<lparr>wy_ippt := assign (cellText row 11) (wy_ippt w),
              wy_voc := assign (cellText row 12) (wy_voc w),
              wy_atp := assign (cellText row 13) (wy_atp w),
              wy_cs := assign (cellText row 14) (wy_cs w)\<rparr>)\<rparr>)"
  using assms by (simp add: assignResults_def Let_def)

lemma assignResults_NSF:
  assumes "category p = NSF" "assessment p = Phases a b"
  shows "assignResults row p = Inr (p\<lparr>assessment := Phases
           (a\<lparr>y1_ippt := assign (cellText row 5) (y1_ippt a),
              y1_voc := assign (cellText row 6) (y1_voc a),
              y1_atp := assign (cellText row 7) (y1_atp a)\<rparr>)
           (b\<lparr>y2_ippt := assign (cellText row 8) (y2_ippt b),
              y2_voc := assign (cellText row 9) (y2_voc b),
              y2_range := assign (cellText row 10) (y2_range b)\<rparr>)\<rparr>)"
  using assms by (simp add: assignResults_def Let_def)

lemma map_of_mapSet: "map_of (mapSet k v m) k = Some v"
  by (induction m) auto

lemma assignResults_slots:
  assumes "shapeMatches p"
  shows "\<exists>p'. assignResults row p = Inr p' \<and> category p' = category p \<and> shapeMatches p'
            \<and> slotValues p' = map2 assign (resultCells (category p) row) (slotValues p)"
proof (cases "assessment p")
  case (Phases a b)
  then have "category p = NSF" using assms by (simp add: shapeMatches_def)
  then show ?thesis using Phases
    by (simp add: assignResults_def Let_def shapeMatches_def slotValues_def resultCells_def)
next
  case (WorkYear w)
  then have "category p = Regular" using assms by (simp add: shapeMatches_def)
  then show ?thesis using WorkYear
    by (simp add: assignResults_def Let_def shapeMatches_def slotValues_def resultCells_def)
qed

lemma baseRecord_slots: "slotValues (baseRecord key c cp r ps t) = emptySlots c"
  by (cases c)
     (simp_all add: baseRecord_def slotValues_def emptySlots_def emptyY1_def emptyY2_def
        emptyWorkYear_def)

lemma processDataRow_slots:
  assumes key: "rowKey row = k" and cat: "rowCategory row = c" and st: "storedAs st k c"
  shows "\<exists>st'. processDataRow clock maps i row st = Inr st' \<and> storedAs st' k c
           \<and> map_of (personnelMap st') k \<noteq> None
           \<and> storedSlots st' k c = map2 assign (resultCells c row) (storedSlots st k c)"
proof -
  define person where "person = (case map_of (personnelMap st) k of Some p \<Rightarrow> p
     | None \<Rightarrow> baseRecord k c (currentPlatoon st) (orEmpty (cellText row 1))
                (cellText row 3) (clock i))"
  define person1 where "person1 = applyVocDates maps k
     (updateAdmin (currentPlatoon st) (orEmpty (cellText row 1)) (cellText row 3)
        (cellText row 4) c person)"
  have P0: "shapeMatches person \<and> category person = c \<and> slotValues person = storedSlots st k c"
  proof (cases "map_of (personnelMap st) k")
    case None
    then show ?thesis unfolding person_def storedSlots_def
      by (simp add: baseRecord_shape baseRecord_slots)
  next
    case (Some p)
    then show ?thesis using st unfolding person_def storedSlots_def storedAs_def by simp
  qed
  have c1: "category person1 = category person"
    unfolding person1_def using P0
    by (simp add: applyVocDates_category updateAdmin_category)
  have a1: "assessment person1 = assessment person"
    unfolding person1_def by (simp add: applyVocDates_assessment updateAdmin_assessment)
  have s1: "slotValues person1 = slotValues person"
    unfolding person1_def by (simp add: slotValues_applyVocDates slotValues_updateAdmin)
  have P1: "shapeMatches person1" using P0 shapeMatches_cong[OF c1 a1] by simp
  obtain person2 where r: "assignResults row person1 = Inr person2"
    and P2: "category person2 = c" "shapeMatches person2"
      "slotValues person2 = map2 assign (resultCells c row) (storedSlots st k c)"
    using assignResults_slots[OF P1, of row] P0 c1 s1 by auto
  have step: "processDataRow clock maps i row st
               = Inr (st\<lparr>personnelMap := mapSet k person2 (personnelMap st)\<rparr>)"
    unfolding processDataRow_def Let_def key cat
    using r unfolding person_def person1_def by simp
  show ?thesis
    unfolding step using P2
    by (simp add: storedAs_def storedSlots_def map_of_mapSet)
qed

text \<open>A run of personnel rows of one name and one category, from a state in which the
  name is absent or stored with that category and its shape: no row throws, and each slot
  ends as the last usable cell of its column, or as it was when no row has one.\<close>

lemma same_name_rows:
  "\<forall>r\<in>set rows. isPersonnelRow r \<and> rowKey r = k \<and> rowCategory r = c \<Longrightarrow>
   storedAs st k c \<Longrightarrow>
   \<exists>st'. processRows clock maps i rows st = Inr st' \<and> storedAs st' k c
     \<and> storedSlots st' k c
         = foldl (\<lambda>slots r. map2 assign (resultCells c r) slots) (storedSlots st k c) rows"
proof (induction rows arbitrary: i st)
  case Nil
  then show ?case by simp
next
  case (Cons row rows)
  have pr: "isPersonnelRow row" and k: "rowKey row = k" and c: "rowCategory row = c"
    using Cons.prems(1) by simp_all
  obtain st1 where s1: "processDataRow clock maps i row st = Inr st1"
    and a1: "storedAs st1 k c"
    and v1: "storedSlots st1 k c = map2 assign (resultCells c row) (storedSlots st k c)"
    using processDataRow_slots[OF k c Cons.prems(2), of clock maps i] by blast
  have rest: "\<forall>r\<in>set rows. isPersonnelRow r \<and> rowKey r = k \<and> rowCategory r = c"
    using Cons.prems(1) by simp
  obtain st' where s': "processRows clock maps (Suc i) rows st1 = Inr st'"
    and a': "storedAs st' k c"
    and v': "storedSlots st' k c
         = foldl (\<lambda>slots r. map2 assign (resultCells c r) slots) (storedSlots st1 k c) rows"
    using Cons.IH[OF rest a1, of "Suc i"] by blast
  show ?case
    using s1 s' a' v' v1 processRow_personnel[OF pr, of clock maps i st] by simp
qed

lemma regular_row_with_MISSING:
  "map category (data (processExcelFile e bookLim)) = [Regular]
   \<and> map slotValues (data (processExcelFile e bookLim)) = [[[], [], [], []]]"
  by code_simp

text \<open>
  The result assignments on a record that carries the slots of its category. A result cell
  is usable when it has text that is neither \<^verbatim>\<open>NA\<close> nor \<^verbatim>\<open>MISSING\<close> in any letter case, and
  an assignment leaves in its slot the cell when it is usable and the stored value
  otherwise. For a Regular record with its work-year slots, and for an NSF record with its
  phase slots, the result assignments of a row succeed and treat each slot so, from the
  cell of its column. Over any run of personnel rows of one name and one category the slots
  of the name end as the fold of these assignments over the rows. No record that the
  ingestion returns holds \<^verbatim>\<open>NA\<close> or \<^verbatim>\<open>MISSING\<close> in a slot; a Regular row whose work-year
  fitness is \<^verbatim>\<open>MISSING\<close> gives a Regular record with that slot empty.
\<close>

lemma slot_merge_same_category:
  "(usable v \<longleftrightarrow> (\<exists>s. v = Some s \<and> s \<noteq> [] \<and> \<not> isSentinel s))
   \<and> assign v old = (if usable v then orEmpty v else old)
   \<and> (category p = Regular \<and> assessment p = WorkYear w \<longrightarrow>
       assignResults row p = Inr (p\<lparr>assessment := WorkYear
           (w\<lparr>wy_ippt := assign (cellText row 11) (wy_ippt w),
              wy_voc := assign (cellText row 12) (wy_voc w),
              wy_atp := assign (cellText row 13) (wy_atp w),
              wy_cs := assign (cellText row 14) (wy_cs w)\<rparr>)\<rparr>))
   \<and> (category q = NSF \<and> assessment q = Phases a b \<longrightarrow>
       assignResults row q = Inr (q\<lparr>assessment := Phases
           (a\<lparr>y1_ippt := assign (cellText row 5) (y1_ippt a),
              y1_voc := assign (cellText row 6) (y1_voc a),
              y1_atp := assign (cellText row 7) (y1_atp a)\<rparr>)
           (b\<lparr>y2_ippt := assign (cellText row 8) (y2_ippt b),
              y2_voc := assign (cellText row 9) (y2_voc b),
              y2_range := assign (cellText row 10) (y2_range b)\<rparr>)\<rparr>))
   \<and> ((\<forall>r\<in>set rows. isPersonnelRow r \<and> rowKey r = k \<and> rowCategory r = c) \<and> storedAs st k c
        \<longrightarrow> (\<exists>st'. processRows clock maps i rows st = Inr st' \<and> storedAs st' k c
               \<and> storedSlots st' k c
                   = foldl (\<lambda>slots r. map2 assign (resultCells c r) slots)
                       (storedSlots st k c) rows))
   \<and> (\<forall>r \<in> set (data (processExcelFile e wb)). \<forall>s\<in>set (slotValues r). \<not> isSentinel s)
   \<and> map category (data (processExcelFile e bookLim)) = [Regular]
   \<and> map slotValues (data (processExcelFile e bookLim)) = [[[], [], [], []]]"
proof (intro conjI impI)
  show "usable v \<longleftrightarrow> (\<exists>s. v = Some s \<and> s \<noteq> [] \<and> \<not> isSentinel s)"
    by (rule usable_iff)
  show "assign v old = (if usable v then orEmpty v else old)"
    by (rule assign_def)
  show "\<forall>r \<in> set (data (processExcelFile e wb)). \<forall>s\<in>set (slotValues r). \<not> isSentinel s"
    by (rule sentinels_never_stored)
  show "map category (data (processExcelFile e bookLim)) = [Regular]"
    using regular_row_with_MISSING by (rule conjunct1)
  show "map slotValues (data (processExcelFile e bookLim)) = [[[], [], [], []]]"
    using regular_row_with_MISSING by (rule conjunct2)
next
  assume "category p = Regular \<and> assessment p = WorkYear w"
  then show "assignResults row p = Inr (p\<lparr>assessment := WorkYear
           (w\<lparr>wy_ippt := assign (cellText row 11) (wy_ippt w),
              wy_voc := assign (cellText row 12) (wy_voc w),
              wy_atp := assign (cellText row 13) (wy_atp w),
              wy_cs := assign (cellText row 14) (wy_cs w)\<rparr>)\<rparr>)"
    using assignResults_Regular[of p w row] by (elim conjE)
next
  assume "category q = NSF \<and> assessment q = Phases a b"
  then show "assignResults row q = Inr (q\<lparr>assessment := Phases
           (a\<lparr>y1_ippt := assign (cellText row 5) (y1_ippt a),
              y1_voc := assign (cellText row 6) (y1_voc a),
              y1_atp := assign (cellText row 7) (y1_atp a)\<rparr>)
           (b\<lparr>y2_ippt := assign (cellText row 8) (y2_ippt b),
              y2_voc := assign (cellText row 9) (y2_voc b),
              y2_range := assign (cellText row 10) (y2_range b)\<rparr>)\<rparr>)"
    using assignResults_NSF[of q a b row] by (elim conjE)
next
  assume "(\<forall>r\<in>set rows. isPersonnelRow r \<and> rowKey r = k \<and> rowCategory r = c) \<and> storedAs st k c"
  then show "\<exists>st'. processRows clock maps i rows st = Inr st' \<and> storedAs st' k c
               \<and> storedSlots st' k c
                   = foldl (\<lambda>slots r. map2 assign (resultCells c r) slots)
                       (storedSlots st k c) rows"
    using same_name_rows[of rows k c st clock maps i] by (elim conjE)
qed

lemma sample_persons:
  "category personLim = Regular \<and> assessment personLim = WorkYear emptyWorkYear"
  "category personTan = NSF \<and> assessment personTan = Phases emptyY1 emptyY2"
  by (simp_all add: personLim_def personTan_def baseRecord_def)

lemma sample_run:
  "(\<forall>r\<in>set [rowTanWei, rowTanWeiSecond].
       isPersonnelRow r \<and> rowKey r = ''TAN WEI'' \<and> rowCategory r = NSF)
   \<and> storedAs initialState ''TAN WEI'' NSF"
  by code_simp

lemma sample_fold:
  "foldl (\<lambda>slots r. map2 assign (resultCells NSF r) slots)
     (storedSlots initialState ''TAN WEI'' NSF) [rowTanWei, rowTanWeiSecond]
   = [''Gold'', ''Pass'', ''Fail'', ''Silver'', ''Pass'', ''Marksman'']"
  by code_simp

lemma sample_cells:
  "assign (cellText rowLimReg 11) (wy_ippt emptyWorkYear) = []"
  "assign (cellText rowTanWei 5) (y1_ippt emptyY1) = ''Gold''"
  "assign (cellText rowTanWei 8) (y2_ippt emptyY2) = []"
  by code_simp+

lemma slot_merge_same_category_sample:
  "assignResults rowLimReg personLim = Inr (personLim\<lparr>assessment := WorkYear
      (emptyWorkYear\<lparr>
         wy_ippt := assign (cellText rowLimReg 11) (wy_ippt emptyWorkYear),
         wy_voc := assign (cellText rowLimReg 12) (wy_voc emptyWorkYear),
         wy_atp := assign (cellText rowLimReg 13) (wy_atp emptyWorkYear),
         wy_cs := assign (cellText rowLimReg 14) (wy_cs emptyWorkYear)\<rparr>)\<rparr>)
   \<and> assignResults rowTanWei personTan = Inr (personTan\<lparr>assessment := Phases
      (emptyY1\<lparr>
         y1_ippt := assign (cellText rowTanWei 5) (y1_ippt emptyY1),
         y1_voc := assign (cellText rowTanWei 6) (y1_voc emptyY1),
         y1_atp := assign (cellText rowTanWei 7) (y1_atp emptyY1)\<rparr>)
      (emptyY2\<lparr>
         y2_ippt := assign (cellText rowTanWei 8) (y2_ippt emptyY2),
         y2_voc := assign (cellText rowTanWei 9) (y2_voc emptyY2),
         y2_range := assign (cellText rowTanWei 10) (y2_range emptyY2)\<rparr>)\<rparr>)
   \<and> (\<exists>st'. processRows (rowTime hostA) emptyVocMaps 0 [rowTanWei, rowTanWeiSecond] initialState
               = Inr st'
          \<and> storedAs st' ''TAN WEI'' NSF
          \<and> storedSlots st' ''TAN WEI'' NSF
              = foldl (\<lambda>slots r. map2 assign (resultCells NSF r) slots)
                  (storedSlots initialState ''TAN WEI'' NSF) [rowTanWei, rowTanWeiSecond])
   \<and> foldl (\<lambda>slots r. map2 assign (resultCells NSF r) slots)
        (storedSlots initialState ''TAN WEI'' NSF) [rowTanWei, rowTanWeiSecond]
       = [''Gold'', ''Pass'', ''Fail'', ''Silver'', ''Pass'', ''Marksman'']
   \<and> assign (cellText rowLimReg 11) (wy_ippt emptyWorkYear) = []
   \<and> assign (cellText rowTanWei 5) (y1_ippt emptyY1) = ''Gold''
   \<and> assign (cellText rowTanWei 8) (y2_ippt emptyY2) = []"
proof -
  note T = slot_merge_same_category [where p = personLim and w = emptyWorkYear
              and row = rowLimReg]
  note U = slot_merge_same_category [where q = personTan and a = emptyY1 and b = emptyY2
              and row = rowTanWei]
  note V = slot_merge_same_category [where rows = "[rowTanWei, rowTanWeiSecond]"
              and k = "''TAN WEI''" and c = NSF and st = initialState
              and clock = "rowTime hostA" and maps = emptyVocMaps and i = 0]
  note c1 = T [THEN conjunct2, THEN conjunct2, THEN conjunct1, THEN mp, OF sample_persons(1)]
  note c2 = U [THEN conjunct2, THEN conjunct2, THEN conjunct2, THEN conjunct1, THEN mp,
              OF sample_persons(2)]
  note c3 = V [THEN conjunct2, THEN conjunct2, THEN conjunct2, THEN conjunct2, THEN conjunct1,
              THEN mp, OF sample_run]
  from c1 c2 c3 sample_fold sample_cells show ?thesis by (intro conjI)
qed

text \<open>
  Claim C4. Two rows are about TAN WEI. The second one carries another service marker than
  the row that created the record, and a usable result in a column of its own category:
  the value is written to no slot, the assignment throws and no record is returned. So it
  is for an NSF record followed by a row marked \<^verbatim>\<open>REG\<close> with the work-year fitness result
  \<^verbatim>\<open>Gold\<close>, and for a Regular record followed by a row marked \<^verbatim>\<open>NSF\<close> with the first-year
  fitness result \<^verbatim>\<open>Gold\<close>.
\<close>

theorem category_flip_drops_usable_value:
  "rowKey rowTanWei = ''TAN WEI'' \<and> rowKey rowTanWeiRegGold = ''TAN WEI''
   \<and> isPersonnelRow rowTanWei \<and> isPersonnelRow rowTanWeiRegGold
   \<and> cellText rowTanWeiRegGold 11 = Some ''Gold''
   \<and> usable (cellText rowTanWeiRegGold 11)
   \<and> map slotValues (mergedRecords e bookOne) = [[''Gold'', ''Pass'', ''Pass'', [], [], []]]
   \<and> scanSheets e bookFlipGold = Inl (TypeError ''workYear'')
   \<and> mergedRecords e bookFlipGold = []
   \<and> data (processExcelFile e bookFlipGold) = []
   \<and> cellText rowTanWei 5 = Some ''Gold''
   \<and> usable (cellText rowTanWei 5)
   \<and> scanSheets e bookFlipBack = Inl (TypeError ''y1'')
   \<and> mergedRecords e bookFlipBack = []
   \<and> data (processExcelFile e bookFlipBack) = []"
  by code_simp

subsection \<open>Running the ingestion again\<close>






















lemma accepted_unstamped: "ordDateAccepted e (unstamped p) = ordDateAccepted e p"
  by (simp add: ordDateAccepted_def unstamped_def)




lemma bookLaterOrd_dates:
  "map ordDate (data (processExcelFile hostA bookLaterOrd)) = [DDate (utcDate 2026 6 1)]"
  by code_simp


end
